theory Spec2Isabelle
  imports Complex_Main "HOL-Library.Log_Nat"
begin

section \<open>Strings\<close>

text \<open>
  A JavaScript string is a sequence of UTF-16 code units. \<open>js\<close> turns an ASCII
  literal into code units; the accented letters of the messages of index.js are
  written by their code unit.
\<close>

type_synonym code_unit = nat
type_synonym jsstring = "code_unit list"

definition js :: "string \<Rightarrow> jsstring" where
  "js s = map of_char s"

text \<open>
  \<open>String.prototype.trim\<close> and \<open>parseInt\<close> skip WhiteSpace and LineTerminator
  code units: TAB, LF, VT, FF, CR, SP, NBSP, U+1680, U+2000..U+200A, U+2028, U+2029,
  U+202F, U+205F, U+3000, U+FEFF.
\<close>

definition is_white_space :: "code_unit \<Rightarrow> bool" where
  "is_white_space c \<longleftrightarrow>
     c \<in> set [9, 10, 11, 12, 13, 32, 160, 5760, 8232, 8233, 8239, 8287, 12288, 65279]
     \<or> (8192 \<le> c \<and> c \<le> 8202)"

definition trim :: "jsstring \<Rightarrow> jsstring" where
  "trim s = rev (dropWhile is_white_space (rev (dropWhile is_white_space s)))"

text \<open>Whether \<open>w\<close> occurs in \<open>s\<close> as a contiguous run of code units.\<close>

fun starts_with :: "jsstring \<Rightarrow> jsstring \<Rightarrow> bool" where
  "starts_with [] s = True"
| "starts_with (c # w) [] = False"
| "starts_with (c # w) (d # s) = (c = d \<and> starts_with w s)"

fun mentions :: "jsstring \<Rightarrow> jsstring \<Rightarrow> bool" where
  "mentions w [] = (w = [])"
| "mentions w (d # s) = (starts_with w (d # s) \<or> mentions w s)"

section \<open>Numbers\<close>

text \<open>
  A JavaScript number is an IEEE 754 binary64 value: a finite double is the rational
  it denotes, next to the two infinities and NaN. The two zeros are one value here:
  the handlers never divide by a zero and a zero prints as 0 in JSON and in a query
  parameter.
\<close>

datatype jsnum = Num rat | PosInfinity | NegInfinity | NaN

text \<open>\<open>floor_log2 x\<close> is the exponent \<open>e\<close> with \<open>2^e \<le> x < 2^(e+1)\<close>, for \<open>0 < x\<close>.\<close>

definition floor_log2 :: "rat \<Rightarrow> int" where
  "floor_log2 x =
     (let (p, q) = quotient_of x; d = bitlen p - bitlen q
      in if 2 powi d \<le> x then d else d - 1)"

definition round_ties_even :: "rat \<Rightarrow> int" where
  "round_ties_even q =
     (let f = \<lfloor>q\<rfloor>; r = q - of_int f
      in if r < 1 / 2 then f else if 1 / 2 < r then f + 1
         else if even f then f else f + 1)"

text \<open>
  Rounding of an exact result to binary64, to nearest with ties to even: 53
  significant bits, the unit in the last place never below \<open>2^-1074\<close>.
\<close>

definition fl :: "rat \<Rightarrow> rat" where
  "fl x =
     (if x = 0 then 0
      else let e = max (floor_log2 \<bar>x\<bar> - 52) (- 1074)
           in of_int (round_ties_even (x / 2 powi e)) * 2 powi e)"

definition to_double :: "rat \<Rightarrow> jsnum" where
  "to_double x =
     (let y = fl x
      in if 2 ^ 1024 \<le> y then PosInfinity
         else if y \<le> - (2 ^ 1024) then NegInfinity
         else Num y)"

fun js_add :: "jsnum \<Rightarrow> jsnum \<Rightarrow> jsnum" where
  "js_add (Num a) (Num b) = to_double (a + b)"
| "js_add NaN y = NaN"
| "js_add x NaN = NaN"
| "js_add PosInfinity NegInfinity = NaN"
| "js_add NegInfinity PosInfinity = NaN"
| "js_add PosInfinity y = PosInfinity"
| "js_add NegInfinity y = NegInfinity"
| "js_add (Num a) y = y"

fun js_neg :: "jsnum \<Rightarrow> jsnum" where
  "js_neg (Num a) = Num (- a)"
| "js_neg PosInfinity = NegInfinity"
| "js_neg NegInfinity = PosInfinity"
| "js_neg NaN = NaN"

definition js_sub :: "jsnum \<Rightarrow> jsnum \<Rightarrow> jsnum" where
  "js_sub x y = js_add x (js_neg y)"

text \<open>The sign of a number: 1, 0 or -1; NaN has none.\<close>

fun js_sign :: "jsnum \<Rightarrow> int option" where
  "js_sign (Num a) = Some (if 0 < a then 1 else if a < 0 then - 1 else 0)"
| "js_sign PosInfinity = Some 1"
| "js_sign NegInfinity = Some (- 1)"
| "js_sign NaN = None"

definition signed_infinity :: "int \<Rightarrow> jsnum" where
  "signed_infinity s = (if s = 0 then NaN else if 0 < s then PosInfinity else NegInfinity)"

fun js_mul :: "jsnum \<Rightarrow> jsnum \<Rightarrow> jsnum" where
  "js_mul (Num a) (Num b) = to_double (a * b)"
| "js_mul x y =
     (case (js_sign x, js_sign y) of
        (Some s, Some t) \<Rightarrow> signed_infinity (s * t)
      | _ \<Rightarrow> NaN)"

fun js_div :: "jsnum \<Rightarrow> jsnum \<Rightarrow> jsnum" where
  "js_div (Num a) (Num b) =
     (if b = 0 then (case js_sign (Num a) of Some s \<Rightarrow> signed_infinity s | None \<Rightarrow> NaN)
      else to_double (a / b))"
| "js_div (Num a) PosInfinity = Num 0"
| "js_div (Num a) NegInfinity = Num 0"
| "js_div PosInfinity (Num b) = (if b < 0 then NegInfinity else PosInfinity)"
| "js_div NegInfinity (Num b) = (if b < 0 then PosInfinity else NegInfinity)"
| "js_div x y = NaN"

fun js_less :: "jsnum \<Rightarrow> jsnum \<Rightarrow> bool" where
  "js_less NaN y = False"
| "js_less x NaN = False"
| "js_less (Num a) (Num b) = (a < b)"
| "js_less PosInfinity y = False"
| "js_less x PosInfinity = True"
| "js_less NegInfinity y = (y \<noteq> NegInfinity)"
| "js_less x NegInfinity = False"

definition js_greater :: "jsnum \<Rightarrow> jsnum \<Rightarrow> bool" where
  "js_greater x y = js_less y x"

text \<open>\<open>x <= y\<close> of JavaScript is \<open>x < y\<close> or \<open>x == y\<close>; false when either is NaN.\<close>

definition js_less_eq :: "jsnum \<Rightarrow> jsnum \<Rightarrow> bool" where
  "js_less_eq x y = (x \<noteq> NaN \<and> y \<noteq> NaN \<and> (js_less x y \<or> x = y))"

definition isNaN :: "jsnum \<Rightarrow> bool" where
  "isNaN x = (x = NaN)"

text \<open>\<open>Math.round\<close>: the nearest integer, a tie going up.\<close>

fun Math_round :: "jsnum \<Rightarrow> jsnum" where
  "Math_round (Num a) = Num (of_int \<lfloor>a + 1 / 2\<rfloor>)"
| "Math_round x = x"

fun Math_ceil :: "jsnum \<Rightarrow> jsnum" where
  "Math_ceil (Num a) = Num (of_int \<lceil>a\<rceil>)"
| "Math_ceil x = x"

definition Math_min :: "jsnum \<Rightarrow> jsnum \<Rightarrow> jsnum" where
  "Math_min x y = (if x = NaN \<or> y = NaN then NaN else if js_less y x then y else x)"

text \<open>\<open>x || d\<close> on numbers: 0 and NaN are falsy.\<close>

definition or_default :: "jsnum \<Rightarrow> jsnum \<Rightarrow> jsnum" where
  "or_default x d = (if x = NaN \<or> x = Num 0 then d else x)"

section \<open>Values of a request\<close>

text \<open>
  A field of the parsed JSON body. The contents of arrays and objects are never
  inspected by index.js.
\<close>

datatype jsval =
    JUndefined | JNull | JBool bool | JNum jsnum | JStr jsstring | JArray | JObject

type_synonym req_body = "string \<rightharpoonup> jsval"

text \<open>Reading a property: an absent one reads as \<open>undefined\<close>.\<close>

definition field :: "req_body \<Rightarrow> string \<Rightarrow> jsval" where
  "field b k = (case b k of None \<Rightarrow> JUndefined | Some v \<Rightarrow> v)"

fun falsy :: "jsval \<Rightarrow> bool" where
  "falsy JUndefined = True"
| "falsy JNull = True"
| "falsy (JBool t) = (\<not> t)"
| "falsy (JNum n) = (n = NaN \<or> n = Num 0)"
| "falsy (JStr s) = (s = [])"
| "falsy JArray = False"
| "falsy JObject = False"

fun Number_isInteger :: "jsval \<Rightarrow> bool" where
  "Number_isInteger (JNum (Num a)) = (of_int \<lfloor>a\<rfloor> = a)"
| "Number_isInteger v = False"

text \<open>
  A value of the query string as Express parses it: a string, or an array or an
  object when the parameter is repeated or bracketed.
\<close>

datatype qval = QStr jsstring | QArr "qval list" | QObj

type_synonym query = "string \<rightharpoonup> qval"

fun join_comma :: "jsstring list \<Rightarrow> jsstring" where
  "join_comma [] = []"
| "join_comma [s] = s"
| "join_comma (s # t # ss) = s @ js '','' @ join_comma (t # ss)"

text \<open>ToString: an array prints its elements joined by commas.\<close>

fun qToString :: "qval \<Rightarrow> jsstring" where
  "qToString (QStr s) = s"
| "qToString (QArr xs) = join_comma (map qToString xs)"
| "qToString QObj = js ''[object Object]''"

fun digit_value :: "code_unit \<Rightarrow> nat option" where
  "digit_value c =
     (if 48 \<le> c \<and> c \<le> 57 then Some (c - 48)
      else if 97 \<le> c \<and> c \<le> 122 then Some (c - 87)
      else if 65 \<le> c \<and> c \<le> 90 then Some (c - 55)
      else None)"

definition is_digit :: "nat \<Rightarrow> code_unit \<Rightarrow> bool" where
  "is_digit R c = (case digit_value c of None \<Rightarrow> False | Some d \<Rightarrow> d < R)"

definition digits_value :: "nat \<Rightarrow> jsstring \<Rightarrow> nat" where
  "digits_value R z = foldl (\<lambda>acc c. acc * R + the (digit_value c)) 0 z"

text \<open>
  \<open>parseInt(string)\<close> with no radix: leading white space is skipped, a sign is
  read, a prefix 0x or 0X selects radix 16, the longest run of digits is the value,
  NaN when there is none.
\<close>

definition parseInt_string :: "jsstring \<Rightarrow> jsnum" where
  "parseInt_string inputString =
     (let S = dropWhile is_white_space inputString;
          neg = (S \<noteq> [] \<and> hd S = 45);
          S1 = (if S \<noteq> [] \<and> (hd S = 43 \<or> hd S = 45) then tl S else S);
          hex = (starts_with (js ''0x'') S1 \<or> starts_with (js ''0X'') S1);
          R = (if hex then 16 else 10);
          S2 = (if hex then drop 2 S1 else S1);
          Z = takeWhile (is_digit R) S2
      in if Z = [] then NaN
         else to_double ((if neg then - 1 else 1) * of_nat (digits_value R Z)))"

definition parseInt :: "qval option \<Rightarrow> jsnum" where
  "parseInt v = (case v of None \<Rightarrow> NaN | Some x \<Rightarrow> parseInt_string (qToString x))"

section \<open>Messages and responses\<close>

definition msg_id_required :: jsstring where
  "msg_id_required = js ''ID '' @ [233] @ js '' obrigat'' @ [243] @ js ''rio''"

definition msg_invalid_uuid :: jsstring where
  "msg_invalid_uuid = js ''ID deve ser um UUID v'' @ [225] @ js ''lido''"

definition msg_name_empty :: jsstring where
  "msg_name_empty = js ''full_name deve ser uma string n'' @ [227] @ js ''o vazia''"

definition msg_name_long :: jsstring where
  "msg_name_long = js ''full_name deve ter no m'' @ [225] @ js ''ximo 255 caracteres''"

definition msg_age :: jsstring where
  "msg_age = js ''age deve ser um n'' @ [250] @ js ''mero inteiro entre 1 e 150''"

definition msg_first_semester :: jsstring where
  "msg_first_semester = js ''first_semester deve ser um n'' @ [250] @ js ''mero entre 0 e 10''"

definition msg_second_semester :: jsstring where
  "msg_second_semester = js ''second_semester deve ser um n'' @ [250] @ js ''mero entre 0 e 10''"

definition msg_invalid_data :: jsstring where
  "msg_invalid_data = js ''Dados inv'' @ [225] @ js ''lidos''"

definition msg_invalid_sort :: jsstring where
  "msg_invalid_sort = js ''Campo de ordena'' @ [231, 227] @ js ''o inv'' @ [225] @ js ''lido''"

definition msg_internal :: jsstring where
  "msg_internal = js ''Erro interno do servidor''"

definition msg_not_found :: jsstring where
  "msg_not_found = js ''Participante n'' @ [227] @ js ''o encontrado''"

definition msg_required :: jsstring where
  "msg_required =
     js ''Campos obrigat'' @ [243]
       @ js ''rios: full_name, age, first_semester, second_semester''"

definition msg_grades :: jsstring where
  "msg_grades = js ''Notas devem ser n'' @ [250] @ js ''meros v'' @ [225] @ js ''lidos''"

definition msg_name_taken :: jsstring where
  "msg_name_taken = js ''J'' @ [225] @ js '' existe um participante com este nome''"

definition msg_already_exists :: jsstring where
  "msg_already_exists = js ''Participante j'' @ [225] @ js '' existe''"

definition msg_other_has_name :: jsstring where
  "msg_other_has_name = js ''J'' @ [225] @ js '' existe outro participante com este nome''"

definition msg_name_exists_other :: jsstring where
  "msg_name_exists_other = js ''Nome j'' @ [225] @ js '' existe para outro participante''"

section \<open>The participants table\<close>

text \<open>
  A row of the table, with the six columns that the statements of index.js name;
  created_at and updated_at, which no statement names, are left out. A numeric
  column holds the number that was sent; the driver hands it back as decimal text
  that \<open>parseFloat\<close> reads as the same double.
\<close>

record participant =
  id_col :: jsstring
  full_name :: jsstring
  age :: jsnum
  first_semester :: jsnum
  second_semester :: jsnum
  final_average :: jsnum

datatype json =
    ErrorJson jsstring
  | ErrorDetailsJson jsstring "jsstring list"
  | ParticipantJson participant
  | PageJson "participant list" jsnum jsnum jsnum jsnum
  | NoBody

record response =
  status :: nat
  body :: json

definition json :: "nat \<Rightarrow> json \<Rightarrow> response" where
  "json code b = \<lparr>status = code, body = b\<rparr>"

text \<open>
  The calls that a handler makes to the pool and the store, in order: the
  connection and every statement with its parameters. The release of the
  connection, which ends every handler that has connected, is not recorded.
\<close>

datatype dbop =
    Connect
  | SelectPage jsstring bool jsnum jsnum
  | SelectCount
  | SelectById jsstring
  | SelectIdByName jsstring
  | SelectIdByNameExcept jsstring jsstring
  | InsertParticipant jsstring jsval jsval jsval jsnum
  | UpdateParticipant jsstring jsval jsval jsval jsnum jsstring
  | DeleteById jsstring

text \<open>The \<open>code\<close> of a rejected call: an SQLSTATE, or none for a driver error.\<close>

type_synonym pg_error = "string option"

text \<open>
  What a request takes from outside index.js: the case mapping of the JavaScript
  engine and that of the store, the id the store generates, the order in which the
  store returns the rows of an ORDER BY, the storage calls that are rejected
  (\<open>fault E k\<close> is the error of the k-th call of the request, the connection
  being call 0), and \<open>parseFloat\<close> on a value that is not a number.
\<close>

record env =
  toLowerCase :: "jsstring \<Rightarrow> jsstring"
  LOWER :: "jsstring \<Rightarrow> jsstring"
  gen_random_uuid :: jsstring
  order_by :: "jsstring \<Rightarrow> bool \<Rightarrow> participant list \<Rightarrow> participant list"
  fault :: "nat \<Rightarrow> pg_error option"
  parseFloat_text :: "jsval \<Rightarrow> jsnum"

record outcome =
  reply :: response
  store :: "participant list"
  trace :: "dbop list"

definition finish :: "response \<Rightarrow> participant list \<Rightarrow> dbop list \<Rightarrow> outcome" where
  "finish r db tr = \<lparr>reply = r, store = db, trace = tr\<rparr>"

text \<open>
  The id column has type UUID (the table definition at the end of index.js): the
  store reads an id parameter in either case and compares and prints it in lower case.
\<close>

definition uuid_in :: "jsstring \<Rightarrow> jsstring" where
  "uuid_in i = map (\<lambda>c. if 65 \<le> c \<and> c \<le> 70 then c + 32 else c) i"

definition select_by_id :: "participant list \<Rightarrow> jsstring \<Rightarrow> participant list" where
  "select_by_id db i = filter (\<lambda>r. id_col r = uuid_in i) db"

definition select_id_by_name :: "env \<Rightarrow> participant list \<Rightarrow> jsstring \<Rightarrow> participant list" where
  "select_id_by_name E db n = filter (\<lambda>r. LOWER E (full_name r) = LOWER E n) db"

definition select_id_by_name_except ::
  "env \<Rightarrow> participant list \<Rightarrow> jsstring \<Rightarrow> jsstring \<Rightarrow> participant list" where
  "select_id_by_name_except E db n i =
     filter (\<lambda>r. LOWER E (full_name r) = LOWER E n \<and> id_col r \<noteq> uuid_in i) db"

text \<open>A parameter bound to a numeric column: the store rejects what is not a number.\<close>

fun as_column :: "jsval \<Rightarrow> jsnum option" where
  "as_column (JNum n) = Some n"
| "as_column v = None"

definition update_rows ::
  "participant list \<Rightarrow> jsstring \<Rightarrow> jsnum \<Rightarrow> jsnum \<Rightarrow> jsnum \<Rightarrow> jsnum \<Rightarrow> jsstring
   \<Rightarrow> participant list" where
  "update_rows db n a f s avg i =
     map (\<lambda>r. if id_col r = uuid_in i
              then r\<lparr>full_name := n, age := a, first_semester := f,
                     second_semester := s, final_average := avg\<rparr>
              else r) db"

definition delete_rows :: "participant list \<Rightarrow> jsstring \<Rightarrow> participant list" where
  "delete_rows db i = filter (\<lambda>r. id_col r \<noteq> uuid_in i) db"

text \<open>A LIMIT or OFFSET parameter: the store rejects what is not a bigint from 0 on.\<close>

fun bigint_param :: "jsnum \<Rightarrow> nat option" where
  "bigint_param (Num a) =
     (if of_int \<lfloor>a\<rfloor> = a \<and> 0 \<le> a \<and> a < 2 ^ 63 then Some (nat \<lfloor>a\<rfloor>) else None)"
| "bigint_param x = None"

definition select_page ::
  "env \<Rightarrow> participant list \<Rightarrow> jsstring \<Rightarrow> bool \<Rightarrow> jsnum \<Rightarrow> jsnum \<Rightarrow> participant list option"
  where
  "select_page E db sortBy desc limit offset =
     (case (bigint_param limit, bigint_param offset) of
        (Some l, Some off) \<Rightarrow> Some (take l (drop off (order_by E sortBy desc db)))
      | _ \<Rightarrow> None)"

section \<open>The middlewares and calculateFinalAverage\<close>

text \<open>
  The regular expression of validateUUID is anchored at both ends and is a
  sequence of character classes, each repeated a fixed number of times; the flag
  \<open>i\<close> lets a letter of a class match in either case.
\<close>

datatype char_class = Hex | Dash | Version | Variant

fun in_class :: "char_class \<Rightarrow> code_unit \<Rightarrow> bool" where
  "in_class Hex c = (48 \<le> c \<and> c \<le> 57 \<or> 97 \<le> c \<and> c \<le> 102 \<or> 65 \<le> c \<and> c \<le> 70)"
| "in_class Dash c = (c = 45)"
| "in_class Version c = (49 \<le> c \<and> c \<le> 53)"
| "in_class Variant c = (c = 56 \<or> c = 57 \<or> c = 97 \<or> c = 98 \<or> c = 65 \<or> c = 66)"

fun regex_test :: "(char_class \<times> nat) list \<Rightarrow> jsstring \<Rightarrow> bool" where
  "regex_test [] s = (s = [])"
| "regex_test ((k, n) # p) s =
     (n \<le> length s \<and> list_all (in_class k) (take n s) \<and> regex_test p (drop n s))"

definition uuidRegex :: "(char_class \<times> nat) list" where
  "uuidRegex =
     [(Hex, 8), (Dash, 1), (Hex, 4), (Dash, 1), (Version, 1), (Hex, 3), (Dash, 1),
      (Variant, 1), (Hex, 3), (Dash, 1), (Hex, 12)]"

text \<open>\<open>None\<close> is the call of \<open>next()\<close>.\<close>

definition validateUUID :: "jsstring \<Rightarrow> response option" where
  "validateUUID i =
     (if i = [] then Some (json 400 (ErrorJson msg_id_required))
      else if \<not> regex_test uuidRegex i then Some (json 400 (ErrorJson msg_invalid_uuid))
      else None)"

definition name_errors :: "jsval \<Rightarrow> jsstring list" where
  "name_errors v =
     (if v \<noteq> JUndefined then
        (case v of
           JStr s \<Rightarrow>
             if length (trim s) = 0 then [msg_name_empty]
             else if 255 < length (trim s) then [msg_name_long]
             else []
         | _ \<Rightarrow> [msg_name_empty])
      else [])"

definition age_errors :: "jsval \<Rightarrow> jsstring list" where
  "age_errors v =
     (if v \<noteq> JUndefined then
        (case v of
           JNum n \<Rightarrow>
             if \<not> Number_isInteger v \<or> js_less_eq n (Num 0) \<or> js_greater n (Num 150)
             then [msg_age] else []
         | _ \<Rightarrow> [msg_age])
      else [])"

definition semester_errors :: "jsstring \<Rightarrow> jsval \<Rightarrow> jsstring list" where
  "semester_errors msg v =
     (if v \<noteq> JUndefined then
        (case v of
           JNum n \<Rightarrow> if js_less n (Num 0) \<or> js_greater n (Num 10) then [msg] else []
         | _ \<Rightarrow> [msg])
      else [])"

definition validateParticipantData :: "req_body \<Rightarrow> response option" where
  "validateParticipantData b =
     (let errors =
            name_errors (field b ''full_name'') @ age_errors (field b ''age'')
            @ semester_errors msg_first_semester (field b ''first_semester'')
            @ semester_errors msg_second_semester (field b ''second_semester'')
      in if 0 < length errors then Some (json 400 (ErrorDetailsJson msg_invalid_data errors))
         else None)"

definition parseFloat :: "env \<Rightarrow> jsval \<Rightarrow> jsnum" where
  "parseFloat E v = (case v of JNum n \<Rightarrow> n | _ \<Rightarrow> parseFloat_text E v)"

text \<open>\<open>Inl\<close> is the message of the Error that is thrown.\<close>

definition calculateFinalAverage :: "env \<Rightarrow> jsval \<Rightarrow> jsval \<Rightarrow> jsstring + jsnum" where
  "calculateFinalAverage E firstSemester secondSemester =
     (let first = parseFloat E firstSemester;
          second = parseFloat E secondSemester
      in if isNaN first \<or> isNaN second then Inl msg_grades
         else Inr (js_div (Math_round (js_mul (js_div (js_add first second) (Num 2)) (Num 100)))
                     (Num 100)))"

section \<open>The handlers\<close>

definition internal_error :: response where
  "internal_error = json 500 (ErrorJson msg_internal)"

subsection \<open>GET /api/participants\<close>

definition allowedSortFields :: "jsstring list" where
  "allowedSortFields =
     [js ''full_name'', js ''age'', js ''final_average'', js ''first_semester'',
      js ''second_semester'']"

definition list_query ::
  "env \<Rightarrow> participant list \<Rightarrow> jsnum \<Rightarrow> jsnum \<Rightarrow> jsnum \<Rightarrow> jsstring \<Rightarrow> bool \<Rightarrow> outcome" where
  "list_query E db page limit offset sortBy desc =
     (let q = SelectPage sortBy desc limit offset
      in case fault E 0 of
           Some e \<Rightarrow> finish internal_error db [Connect]
         | None \<Rightarrow>
            (case fault E 1 of
               Some e \<Rightarrow> finish internal_error db [Connect, q]
             | None \<Rightarrow>
                (case select_page E db sortBy desc limit offset of
                   None \<Rightarrow> finish internal_error db [Connect, q]
                 | Some rows \<Rightarrow>
                    (case fault E 2 of
                       Some e \<Rightarrow> finish internal_error db [Connect, q, SelectCount]
                     | None \<Rightarrow>
                        (let totalCount = to_double (of_nat (length db))
                         in finish
                              (json 200
                                 (PageJson rows page limit totalCount
                                    (Math_ceil (js_div totalCount limit))))
                              db [Connect, q, SelectCount])))))"

definition get_participants :: "env \<Rightarrow> participant list \<Rightarrow> query \<Rightarrow> outcome" where
  "get_participants E db q =
     (let page = or_default (parseInt (q ''page'')) (Num 1);
          limit = Math_min (or_default (parseInt (q ''limit'')) (Num 50)) (Num 100);
          offset = js_mul (js_sub page (Num 1)) limit;
          sortBy = (case q ''sortBy'' of
                      None \<Rightarrow> QStr (js ''full_name'')
                    | Some v \<Rightarrow> if v = QStr [] then QStr (js ''full_name'') else v);
          desc = (q ''sortOrder'' = Some (QStr (js ''desc'')))
      in case sortBy of
           QStr f \<Rightarrow>
             if f \<in> set allowedSortFields then list_query E db page limit offset f desc
             else finish (json 400 (ErrorJson msg_invalid_sort)) db []
         | _ \<Rightarrow> finish (json 400 (ErrorJson msg_invalid_sort)) db [])"

subsection \<open>GET /api/participants/:id\<close>

definition get_participant :: "env \<Rightarrow> participant list \<Rightarrow> jsstring \<Rightarrow> outcome" where
  "get_participant E db i =
     (case validateUUID i of
        Some r \<Rightarrow> finish r db []
      | None \<Rightarrow>
         (case fault E 0 of
            Some e \<Rightarrow> finish internal_error db [Connect]
          | None \<Rightarrow>
             (case fault E 1 of
                Some e \<Rightarrow> finish internal_error db [Connect, SelectById i]
              | None \<Rightarrow>
                 (case select_by_id db i of
                    [] \<Rightarrow> finish (json 404 (ErrorJson msg_not_found)) db [Connect, SelectById i]
                  | r # rs \<Rightarrow> finish (json 200 (ParticipantJson r)) db [Connect, SelectById i]))))"

subsection \<open>POST /api/participants\<close>

definition create_catch :: "pg_error \<Rightarrow> response" where
  "create_catch e =
     (if e = Some ''23505'' then json 409 (ErrorJson msg_already_exists) else internal_error)"

definition post_insert ::
  "env \<Rightarrow> participant list \<Rightarrow> jsstring \<Rightarrow> jsval \<Rightarrow> jsval \<Rightarrow> jsval \<Rightarrow> jsnum \<Rightarrow> outcome" where
  "post_insert E db normalizedName a f s avg =
     (let q1 = SelectIdByName normalizedName;
          q2 = InsertParticipant normalizedName a f s avg
      in case fault E 0 of
           Some e \<Rightarrow> finish (create_catch e) db [Connect]
         | None \<Rightarrow>
            (case fault E 1 of
               Some e \<Rightarrow> finish (create_catch e) db [Connect, q1]
             | None \<Rightarrow>
                if 0 < length (select_id_by_name E db normalizedName)
                then finish (json 409 (ErrorJson msg_name_taken)) db [Connect, q1]
                else
                  (case fault E 2 of
                     Some e \<Rightarrow> finish (create_catch e) db [Connect, q1, q2]
                   | None \<Rightarrow>
                      (case (as_column a, as_column f, as_column s) of
                         (Some a', Some f', Some s') \<Rightarrow>
                           (let row = \<lparr>id_col = gen_random_uuid E, full_name = normalizedName,
                                       age = a', first_semester = f', second_semester = s',
                                       final_average = avg\<rparr>
                            in finish (json 201 (ParticipantJson row)) (db @ [row])
                                 [Connect, q1, q2])
                       | _ \<Rightarrow> finish (create_catch (Some ''22P02'')) db [Connect, q1, q2]))))"

definition post_participants :: "env \<Rightarrow> participant list \<Rightarrow> req_body \<Rightarrow> outcome" where
  "post_participants E db b =
     (case validateParticipantData b of
        Some r \<Rightarrow> finish r db []
      | None \<Rightarrow>
         (let fn = field b ''full_name''; a = field b ''age'';
              f = field b ''first_semester''; s = field b ''second_semester''
          in if falsy fn \<or> a = JUndefined \<or> f = JUndefined \<or> s = JUndefined
             then finish (json 400 (ErrorJson msg_required)) db []
             else
               (case fn of
                  JStr nm \<Rightarrow>
                    (case calculateFinalAverage E f s of
                       Inl m \<Rightarrow> finish (json 400 (ErrorJson m)) db []
                     | Inr avg \<Rightarrow> post_insert E db (trim nm) a f s avg)
                | _ \<Rightarrow> finish (create_catch None) db [])))"

subsection \<open>PUT /api/participants/:id\<close>

definition update_catch :: "pg_error \<Rightarrow> response" where
  "update_catch e =
     (if e = Some ''23505'' then json 409 (ErrorJson msg_name_exists_other)
      else internal_error)"

definition put_write ::
  "env \<Rightarrow> participant list \<Rightarrow> jsstring \<Rightarrow> jsstring \<Rightarrow> jsval \<Rightarrow> jsval \<Rightarrow> jsval \<Rightarrow> dbop list
   \<Rightarrow> outcome" where
  "put_write E db i updatedName updatedAge updatedFirstSemester updatedSecondSemester tr =
     (case calculateFinalAverage E updatedFirstSemester updatedSecondSemester of
        Inl m \<Rightarrow> finish (json 400 (ErrorJson m)) db tr
      | Inr avg \<Rightarrow>
         (let q = UpdateParticipant updatedName updatedAge updatedFirstSemester
                    updatedSecondSemester avg i
          in case fault E (length tr) of
               Some e \<Rightarrow> finish (update_catch e) db (tr @ [q])
             | None \<Rightarrow>
                (case (as_column updatedAge, as_column updatedFirstSemester,
                       as_column updatedSecondSemester) of
                   (Some a, Some f, Some s) \<Rightarrow>
                     (let db' = update_rows db updatedName a f s avg i
                      in case select_by_id db' i of
                           [] \<Rightarrow> finish (json 200 NoBody) db' (tr @ [q])
                         | r # rs \<Rightarrow> finish (json 200 (ParticipantJson r)) db' (tr @ [q]))
                 | _ \<Rightarrow> finish (update_catch (Some ''22P02'')) db (tr @ [q]))))"

definition put_existing ::
  "env \<Rightarrow> participant list \<Rightarrow> jsstring \<Rightarrow> req_body \<Rightarrow> participant \<Rightarrow> dbop list \<Rightarrow> outcome"
  where
  "put_existing E db i b current tr =
     (let fn = field b ''full_name''; a = field b ''age'';
          f = field b ''first_semester''; s = field b ''second_semester'';
          updatedAge = (if a \<noteq> JUndefined then a else JNum (age current));
          updatedFirstSemester = (if f \<noteq> JUndefined then f else JNum (first_semester current));
          updatedSecondSemester =
            (if s \<noteq> JUndefined then s else JNum (second_semester current))
      in case (if fn \<noteq> JUndefined
               then (case fn of JStr nm \<Rightarrow> Some (trim nm) | _ \<Rightarrow> None)
               else Some (full_name current)) of
           None \<Rightarrow> finish (update_catch None) db tr
         | Some updatedName \<Rightarrow>
            if fn \<noteq> JUndefined
               \<and> toLowerCase E updatedName \<noteq> toLowerCase E (full_name current)
            then
              (let q = SelectIdByNameExcept updatedName i
               in case fault E (length tr) of
                    Some e \<Rightarrow> finish (update_catch e) db (tr @ [q])
                  | None \<Rightarrow>
                     if 0 < length (select_id_by_name_except E db updatedName i)
                     then finish (json 409 (ErrorJson msg_other_has_name)) db (tr @ [q])
                     else put_write E db i updatedName updatedAge updatedFirstSemester
                            updatedSecondSemester (tr @ [q]))
            else put_write E db i updatedName updatedAge updatedFirstSemester
                   updatedSecondSemester tr)"

definition put_participant ::
  "env \<Rightarrow> participant list \<Rightarrow> jsstring \<Rightarrow> req_body \<Rightarrow> outcome" where
  "put_participant E db i b =
     (case validateUUID i of
        Some r \<Rightarrow> finish r db []
      | None \<Rightarrow>
         (case validateParticipantData b of
            Some r \<Rightarrow> finish r db []
          | None \<Rightarrow>
             (case fault E 0 of
                Some e \<Rightarrow> finish (update_catch e) db [Connect]
              | None \<Rightarrow>
                 (case fault E 1 of
                    Some e \<Rightarrow> finish (update_catch e) db [Connect, SelectById i]
                  | None \<Rightarrow>
                     (case select_by_id db i of
                        [] \<Rightarrow>
                          finish (json 404 (ErrorJson msg_not_found)) db [Connect, SelectById i]
                      | current # rs \<Rightarrow>
                          put_existing E db i b current [Connect, SelectById i])))))"

subsection \<open>DELETE /api/participants/:id\<close>

definition delete_participant :: "env \<Rightarrow> participant list \<Rightarrow> jsstring \<Rightarrow> outcome" where
  "delete_participant E db i =
     (case validateUUID i of
        Some r \<Rightarrow> finish r db []
      | None \<Rightarrow>
         (case fault E 0 of
            Some e \<Rightarrow> finish internal_error db [Connect]
          | None \<Rightarrow>
             (case fault E 1 of
                Some e \<Rightarrow> finish internal_error db [Connect, DeleteById i]
              | None \<Rightarrow>
                 if length (select_by_id db i) = 0
                 then finish (json 404 (ErrorJson msg_not_found)) (delete_rows db i)
                        [Connect, DeleteById i]
                 else finish (json 204 NoBody) (delete_rows db i) [Connect, DeleteById i])))"

section \<open>Notions of the specification\<close>

text \<open>
  The specification calls an id UUID-shaped when it matches the 8-4-4-4-12
  hexadecimal grouping.
\<close>

definition uuid_grouping :: "(char_class \<times> nat) list" where
  "uuid_grouping =
     [(Hex, 8), (Dash, 1), (Hex, 4), (Dash, 1), (Hex, 4), (Dash, 1), (Hex, 4), (Dash, 1),
      (Hex, 12)]"

definition uuid_shaped :: "jsstring \<Rightarrow> bool" where
  "uuid_shaped i = regex_test uuid_grouping i"

text \<open>
  UUID-shaped, the third group beginning with a digit from 1 to 5 and the fourth
  with one of 8, 9, a, b in either case.
\<close>

definition uuid_accepted :: "jsstring \<Rightarrow> bool" where
  "uuid_accepted i =
     (uuid_shaped i \<and> in_class Version (i ! 14) \<and> in_class Variant (i ! 19))"

text \<open>A string without white space at either end.\<close>

definition trimmed :: "jsstring \<Rightarrow> bool" where
  "trimmed s = (s = [] \<or> (\<not> is_white_space (hd s) \<and> \<not> is_white_space (last s)))"

text \<open>
  The final average of the specification: the mean of the two scores rounded half
  up to two decimal places, as a number of JavaScript.
\<close>

definition round_half_up_2 :: "rat \<Rightarrow> rat" where
  "round_half_up_2 x = of_int \<lfloor>x * 100 + 1 / 2\<rfloor> / 100"

definition spec_average :: "rat \<Rightarrow> rat \<Rightarrow> jsnum" where
  "spec_average f s = to_double (round_half_up_2 ((f + s) / 2))"

section \<open>Values that the handlers compute\<close>

text \<open>The character classes of a regular expression, one for each code unit.\<close>

definition flat :: "(char_class \<times> nat) list \<Rightarrow> char_class list" where
  "flat p = concat (map (\<lambda>(k, n). replicate n k) p)"

text \<open>The value that calculateFinalAverage returns for two numbers.\<close>

definition js_average :: "jsnum \<Rightarrow> jsnum \<Rightarrow> jsnum" where
  "js_average x y = js_div (Math_round (js_mul (js_div (js_add x y) (Num 2)) (Num 100))) (Num 100)"

text \<open>
  The values that PUT writes for a body that passes validateParticipantData: those
  of the body where it has the field, those of the current row elsewhere; and the
  condition under which PUT sends the name query.
\<close>

definition updated_name :: "req_body \<Rightarrow> participant \<Rightarrow> jsstring" where
  "updated_name b current =
     (case field b ''full_name'' of JStr nm \<Rightarrow> trim nm | _ \<Rightarrow> full_name current)"

definition updated_number :: "req_body \<Rightarrow> string \<Rightarrow> jsnum \<Rightarrow> jsnum" where
  "updated_number b k cur = (case field b k of JNum x \<Rightarrow> x | _ \<Rightarrow> cur)"

definition name_check_runs :: "env \<Rightarrow> req_body \<Rightarrow> participant \<Rightarrow> bool" where
  "name_check_runs E b current =
     (field b ''full_name'' \<noteq> JUndefined
      \<and> toLowerCase E (updated_name b current) \<noteq> toLowerCase E (full_name current))"

section \<open>Examples\<close>

text \<open>
  An environment for the examples: both case mappings lower the letters A to Z,
  no storage call is rejected, the store returns rows in table order.
\<close>

definition ascii_lower :: "jsstring \<Rightarrow> jsstring" where
  "ascii_lower s = map (\<lambda>c. if 65 \<le> c \<and> c \<le> 90 then c + 32 else c) s"

definition example_env :: env where
  "example_env =
     \<lparr>toLowerCase = ascii_lower, LOWER = ascii_lower,
      gen_random_uuid = js ''123e4567-e89b-42d3-a456-426614174001'',
      order_by = (\<lambda>f d rows. rows), fault = (\<lambda>k. None),
      parseFloat_text = (\<lambda>v. NaN)\<rparr>"

text \<open>The id of the tests, and a row with it.\<close>

definition valid_id :: jsstring where
  "valid_id = js ''123e4567-e89b-12d3-a456-426614174000''"

definition maria :: participant where
  "maria =
     \<lparr>id_col = valid_id, full_name = js ''Maria Santos'', age = Num 22,
      first_semester = Num 8, second_semester = Num 6, final_average = Num 7\<rparr>"

text \<open>
  Bodies: all four fields; the full_name and age of the test of missing fields; a
  name alone; an age alone.
\<close>

definition create_body :: "jsstring \<Rightarrow> req_body" where
  "create_body nm =
     [''full_name'' \<mapsto> JStr nm, ''age'' \<mapsto> JNum (Num 22),
      ''first_semester'' \<mapsto> JNum (Num 8), ''second_semester'' \<mapsto> JNum (Num 6)]"

definition partial_body :: req_body where
  "partial_body =
     [''full_name'' \<mapsto> JStr (js ''Jo'' @ [227] @ js ''o''), ''age'' \<mapsto> JNum (Num 25)]"

definition rename_body :: "jsstring \<Rightarrow> req_body" where
  "rename_body nm = [''full_name'' \<mapsto> JStr nm]"

definition age_body :: req_body where
  "age_body = [''age'' \<mapsto> JNum (Num 23)]"

text \<open>A body with the scores 0.01 and 2.02, as JSON.parse reads them.\<close>

definition low_scores_body :: req_body where
  "low_scores_body =
     [''full_name'' \<mapsto> JStr (js ''Ana Lima''), ''age'' \<mapsto> JNum (Num 22),
      ''first_semester'' \<mapsto> JNum (to_double (1 / 100)),
      ''second_semester'' \<mapsto> JNum (to_double (202 / 100))]"

text \<open>A body whose age is negative: validateParticipantData rejects it.\<close>

definition bad_age_body :: req_body where
  "bad_age_body = [''age'' \<mapsto> JNum (Num (- 5))]"

text \<open>
  A second row, whose name is that of Maria Santos in capitals, and an environment
  in which the third storage call of a request is rejected with SQLSTATE 23505
  (unique_violation): the answer of the store to an UPDATE that gives a row the
  full_name of another row, the column being UNIQUE in the table definition at the
  end of index.js.
\<close>

definition maria_upper :: participant where
  "maria_upper =
     \<lparr>id_col = js ''123e4567-e89b-42d3-a456-426614174002'',
      full_name = js ''MARIA SANTOS'', age = Num 30,
      first_semester = Num 5, second_semester = Num 5, final_average = Num 5\<rparr>"

definition unique_env :: env where
  "unique_env = example_env\<lparr>fault := (\<lambda>k. if k = 2 then Some (Some ''23505'') else None)\<rparr>"

section \<open>The id check\<close>

lemma list_all2_replicate:
  "list_all2 P (replicate n k) us \<longleftrightarrow> length us = n \<and> list_all (P k) us"
  by (auto simp: list_all2_conv_all_nth list_all_length)

lemma regex_test_flat: "regex_test p s \<longleftrightarrow> list_all2 in_class (flat p) s"
proof (induction p arbitrary: s)
  case Nil
  show ?case by (auto simp: flat_def)
next
  case (Cons a p)
  obtain k n where a: "a = (k, n)" by (cases a)
  have "list_all2 in_class (replicate n k @ flat p) s \<longleftrightarrow>
        n \<le> length s \<and> list_all (in_class k) (take n s) \<and> list_all2 in_class (flat p) (drop n s)"
  proof
    assume "list_all2 in_class (replicate n k @ flat p) s"
    then obtain us vs where s: "s = us @ vs" and u: "list_all2 in_class (replicate n k) us"
      and v: "list_all2 in_class (flat p) vs"
      by (auto simp: list_all2_append1)
    from u have "length us = n" "list_all (in_class k) us"
      by (simp_all add: list_all2_replicate)
    with s v show "n \<le> length s \<and> list_all (in_class k) (take n s)
        \<and> list_all2 in_class (flat p) (drop n s)"
      by simp
  next
    assume h: "n \<le> length s \<and> list_all (in_class k) (take n s)
        \<and> list_all2 in_class (flat p) (drop n s)"
    then have "list_all2 in_class (replicate n k) (take n s)"
      by (simp add: list_all2_replicate)
    with h have "list_all2 in_class (replicate n k @ flat p) (take n s @ drop n s)"
      by (intro list_all2_appendI) simp_all
    then show "list_all2 in_class (replicate n k @ flat p) s" by simp
  qed
  with Cons a show ?case by (simp add: flat_def)
qed

lemma list_all2_update_refine:
  assumes "n < length xs" and "\<And>c. P k c \<Longrightarrow> P (xs ! n) c"
  shows "list_all2 P (xs[n := k]) ys \<longleftrightarrow> list_all2 P xs ys \<and> P k (ys ! n)"
  using assms
  by (auto simp: list_all2_conv_all_nth nth_list_update)

lemma flat_uuidRegex: "flat uuidRegex = (flat uuid_grouping)[14 := Version, 19 := Variant]"
  by (simp add: flat_def uuidRegex_def uuid_grouping_def numeral_eq_Suc)

lemma regex_uuid: "regex_test uuidRegex i \<longleftrightarrow> uuid_accepted i"
proof -
  have v: "\<And>c. in_class Version c \<Longrightarrow> in_class Hex c" by auto
  have w: "\<And>c. in_class Variant c \<Longrightarrow> in_class Hex c" by auto
  have l: "length (flat uuid_grouping) = 36" "flat uuid_grouping ! 14 = Hex"
    "flat uuid_grouping ! 19 = Hex"
    by (simp_all add: flat_def uuid_grouping_def nth_append)
  have "list_all2 in_class ((flat uuid_grouping)[14 := Version, 19 := Variant]) i \<longleftrightarrow>
      list_all2 in_class ((flat uuid_grouping)[14 := Version]) i \<and> in_class Variant (i ! 19)"
    using l w by (intro list_all2_update_refine) (simp_all)
  also have "list_all2 in_class ((flat uuid_grouping)[14 := Version]) i \<longleftrightarrow>
      list_all2 in_class (flat uuid_grouping) i \<and> in_class Version (i ! 14)"
    using l v by (intro list_all2_update_refine) simp_all
  finally show ?thesis
    by (auto simp: regex_test_flat flat_uuidRegex uuid_accepted_def uuid_shaped_def)
qed

lemma uuid_accepted_nonempty: "uuid_accepted i \<Longrightarrow> i \<noteq> []"
  by (auto simp: uuid_accepted_def uuid_shaped_def uuid_grouping_def)

lemma validateUUID_None: "validateUUID i = None \<longleftrightarrow> uuid_accepted i"
  using uuid_accepted_nonempty [of i] by (auto simp: validateUUID_def regex_uuid)

lemma validateUUID_Some:
  "\<not> uuid_accepted i \<Longrightarrow>
   validateUUID i =
     Some (json 400 (ErrorJson (if i = [] then msg_id_required else msg_invalid_uuid)))"
  by (auto simp: validateUUID_def regex_uuid)

lemma valid_id_accepted: "uuid_accepted valid_id"
  by (simp add: uuid_accepted_def uuid_shaped_def uuid_grouping_def valid_id_def js_def)

lemma put_write_trace:
  "\<exists>rest. trace (put_write E db i n a f s tr) = tr @ rest"
  by (auto simp: put_write_def finish_def Let_def split: sum.splits option.splits list.splits)

lemma put_existing_trace:
  "\<exists>rest. trace (put_existing E db i b cur tr) = tr @ rest"
proof -
  have w: "\<And>n a f s q. \<exists>rest. trace (put_write E db i n a f s (tr @ [q])) = tr @ rest"
  proof -
    fix n a f s q
    from put_write_trace [of E db i n a f s "tr @ [q]"]
    show "\<exists>rest. trace (put_write E db i n a f s (tr @ [q])) = tr @ rest" by auto
  qed
  show ?thesis
    unfolding put_existing_def Let_def
    by (auto simp: finish_def put_write_trace w split: option.splits jsval.splits)
qed

section \<open>Numbers, and the list of participants\<close>

lemma round_ties_even_int [simp]: "round_ties_even (of_int m) = m"
  by (simp add: round_ties_even_def)

lemma round_ties_even_near: "\<bar>of_int (round_ties_even q) - q\<bar> \<le> 1 / 2"
proof -
  define f where "f = \<lfloor>q\<rfloor>"
  have b: "of_int f \<le> q" "q < of_int f + 1" unfolding f_def by linarith+
  have r: "round_ties_even q =
      (if q - of_int f < 1 / 2 then f else if 1 / 2 < q - of_int f then f + 1
       else if even f then f else f + 1)"
    by (simp add: round_ties_even_def f_def Let_def)
  show ?thesis using b unfolding r by (auto simp: abs_if)
qed

lemma floor_log2_bounds:
  assumes "0 < x"
  shows "2 powi floor_log2 x \<le> x \<and> x < 2 powi (floor_log2 x + 1)"
proof -
  obtain p q where pq: "quotient_of x = (p, q)" by (cases "quotient_of x")
  then have q: "0 < q" by (rule quotient_of_denom_pos)
  from pq have x: "x = of_int p / of_int q" by (rule quotient_of_div)
  with assms q have p: "0 < p" by (simp add: zero_less_divide_iff)
  define bp where "bp = bitlen p"
  define bq where "bq = bitlen q"
  from bitlen_bounds [OF p] have bp: "2 ^ nat (bp - 1) \<le> p" "p < 2 ^ nat bp"
    by (simp_all add: bp_def)
  from bitlen_bounds [OF q] have bq: "2 ^ nat (bq - 1) \<le> q" "q < 2 ^ nat bq"
    by (simp_all add: bq_def)
  have bp1: "1 \<le> bp" using p bitlen_eq_zero_iff [of p] bitlen_nonneg [of p]
    by (simp add: bp_def)
  have bq1: "1 \<le> bq" using q bitlen_eq_zero_iff [of q] bitlen_nonneg [of q]
    by (simp add: bq_def)
  have P: "(2::rat) powi (bp - 1) \<le> of_int p" "of_int p < (2::rat) powi bp"
  proof -
    have "(2::rat) powi (bp - 1) = of_int (2 ^ nat (bp - 1))"
      using bp1 by (simp add: power_int_def)
    also have "\<dots> \<le> of_int p" using bp(1) by (simp only: of_int_le_iff)
    finally show "(2::rat) powi (bp - 1) \<le> of_int p" .
    have "(of_int p :: rat) < of_int (2 ^ nat bp)" using bp(2) by (simp only: of_int_less_iff)
    also have "\<dots> = 2 powi bp" using bp1 by (simp add: power_int_def)
    finally show "of_int p < (2::rat) powi bp" .
  qed
  have Q: "(2::rat) powi (bq - 1) \<le> of_int q" "of_int q < (2::rat) powi bq"
  proof -
    have "(2::rat) powi (bq - 1) = of_int (2 ^ nat (bq - 1))"
      using bq1 by (simp add: power_int_def)
    also have "\<dots> \<le> of_int q" using bq(1) by (simp only: of_int_le_iff)
    finally show "(2::rat) powi (bq - 1) \<le> of_int q" .
    have "(of_int q :: rat) < of_int (2 ^ nat bq)" using bq(2) by (simp only: of_int_less_iff)
    also have "\<dots> = 2 powi bq" using bq1 by (simp add: power_int_def)
    finally show "of_int q < (2::rat) powi bq" .
  qed
  have qpos: "(0::rat) < of_int q" using q by simp
  have up: "x < 2 powi (bp - bq + 1)"
  proof -
    have "x * 2 powi (bq - 1) \<le> x * of_int q"
      using Q(1) assms by (simp add: mult_left_mono)
    also have "\<dots> = of_int p" using x qpos by simp
    also have "\<dots> < 2 powi bp" by (rule P(2))
    finally have "x * 2 powi (bq - 1) < 2 powi bp" .
    then have "x < 2 powi bp / 2 powi (bq - 1)"
      by (simp add: pos_less_divide_eq)
    also have "\<dots> = 2 powi (bp - (bq - 1))" by (simp add: power_int_diff)
    finally show ?thesis by (simp add: algebra_simps)
  qed
  have lo: "2 powi (bp - bq - 1) \<le> x"
  proof -
    have "(2::rat) powi (bp - 1) \<le> of_int p" by (rule P(1))
    also have "\<dots> = x * of_int q" using x qpos by simp
    also have "\<dots> \<le> x * 2 powi bq" using Q(2) assms by (simp add: mult_left_mono)
    finally have "2 powi (bp - 1) / 2 powi bq \<le> x"
      by (simp add: pos_divide_le_eq)
    moreover have "(2::rat) powi (bp - 1) / 2 powi bq = 2 powi (bp - 1 - bq)"
      by (simp add: power_int_diff)
    ultimately show ?thesis by (simp add: algebra_simps)
  qed
  show ?thesis
  proof (cases "2 powi (bp - bq) \<le> x")
    case True
    then have "floor_log2 x = bp - bq"
      by (simp add: floor_log2_def pq bp_def bq_def)
    with True up show ?thesis by simp
  next
    case False
    then have "floor_log2 x = bp - bq - 1"
      by (simp add: floor_log2_def pq bp_def bq_def)
    with False lo show ?thesis by simp
  qed
qed

lemma pow2_less_imp: "(2::rat) powi a < 2 powi b \<Longrightarrow> a < b"
  using power_int_increasing [of b a "2::rat"] by (cases "a < b") auto

lemma pow2_le_imp: "(2::rat) powi a \<le> 2 powi b \<Longrightarrow> a \<le> b"
  using power_int_strict_increasing [of b a "2::rat"] by (cases "a \<le> b") auto

lemma floor_log2_eq:
  assumes "2 powi e \<le> x" "x < 2 powi (e + 1)"
  shows "floor_log2 x = e"
proof -
  have x: "0 < x" using assms(1) by (rule less_le_trans [rotated]) simp
  note b = floor_log2_bounds [OF x]
  have "2 powi e < (2::rat) powi (floor_log2 x + 1)" using assms(1) b by linarith
  then have 1: "e < floor_log2 x + 1" by (rule pow2_less_imp)
  have "2 powi floor_log2 x < (2::rat) powi (e + 1)" using assms(2) b by linarith
  then have 2: "floor_log2 x < e + 1" by (rule pow2_less_imp)
  from 1 2 show ?thesis by linarith
qed


lemma fl_of_int_cases:
  "fl (of_int n) = of_int n \<or> (\<exists>k e. 0 \<le> e \<and> fl (of_int n) = of_int k * 2 ^ nat e)"
proof (cases "n = 0")
  case True
  then show ?thesis by (simp add: fl_def)
next
  case False
  define e where "e = max (floor_log2 \<bar>of_int n\<bar> - 52) (- 1074)"
  have f: "fl (of_int n) = of_int (round_ties_even (of_int n / 2 powi e)) * 2 powi e"
    using False by (simp add: fl_def e_def Let_def)
  show ?thesis
  proof (cases "0 \<le> e")
    case True
    then have "(2::rat) powi e = 2 ^ nat e" by (simp add: power_int_def)
    with f True show ?thesis by auto
  next
    case False
    then have "(of_int n :: rat) / 2 powi e = of_int (n * 2 ^ nat (- e))"
      by (simp add: power_int_def field_simps)
    then have "fl (of_int n) = of_int (n * 2 ^ nat (- e)) * 2 powi e"
      using f by (simp only: round_ties_even_int)
    also have "\<dots> = of_int n" using False by (simp add: power_int_def field_simps)
    finally show ?thesis by simp
  qed
qed

lemma fl_of_int_Ints: "fl (of_int n) \<in> \<int>"
  using fl_of_int_cases [of n] by auto

lemma fl_small_int:
  assumes "\<bar>n\<bar> < 2 ^ 53"
  shows "fl (of_int n) = of_int n"
proof (cases "n = 0")
  case True
  then show ?thesis by (simp add: fl_def)
next
  case False
  define x :: rat where "x = \<bar>of_int n\<bar>"
  have x: "0 < x" "x < 2 powi 53" using False assms
    by (simp_all add: x_def flip: of_int_abs)
  define e where "e = max (floor_log2 x - 52) (- 1074)"
  from floor_log2_bounds [OF x(1)] x(2) have "2 powi floor_log2 x < (2::rat) powi 53" by linarith
  then have "floor_log2 x < 53" by (rule pow2_less_imp)
  then have e: "e \<le> 0" by (simp add: e_def)
  have f: "fl (of_int n) = of_int (round_ties_even (of_int n / 2 powi e)) * 2 powi e"
    using False by (simp add: fl_def e_def x_def Let_def)
  have "(of_int n :: rat) / 2 powi e = of_int (n * 2 ^ nat (- e))"
    using e by (simp add: power_int_def field_simps)
  then have "fl (of_int n) = of_int (n * 2 ^ nat (- e)) * 2 powi e"
    using f by (simp only: round_ties_even_int)
  also have "\<dots> = of_int n" using e by (simp add: power_int_def field_simps)
  finally show ?thesis .
qed


lemma to_double_of_int_cases:
  "to_double (of_int m) = PosInfinity \<or> to_double (of_int m) = NegInfinity
   \<or> (\<exists>n. to_double (of_int m) = Num (of_int n))"
proof -
  from fl_of_int_Ints [of m] obtain n where "fl (of_int m) = of_int n"
    by (auto elim: Ints_cases)
  then show ?thesis by (auto simp: to_double_def Let_def)
qed

lemma parseInt_cases:
  "parseInt v = NaN \<or> parseInt v = PosInfinity \<or> parseInt v = NegInfinity
   \<or> (\<exists>n. parseInt v = Num (of_int n))"
proof (cases v)
  case None
  then show ?thesis by (simp add: parseInt_def)
next
  case (Some x)
  have "\<exists>m. parseInt_string (qToString x) = NaN \<or> parseInt_string (qToString x) = to_double (of_int m)"
  proof -
    have a: "\<And>d::nat. (- 1) * (of_nat d :: rat) = of_int (- int d)" by simp
    have b: "\<And>d::nat. 1 * (of_nat d :: rat) = of_int (int d)" by simp
    show ?thesis
      unfolding parseInt_string_def Let_def
      by (auto simp only: a b split: if_splits)
  qed
  then obtain m where "parseInt v = NaN \<or> parseInt v = to_double (of_int m)"
    using Some by (auto simp: parseInt_def)
  with to_double_of_int_cases [of m] show ?thesis by auto
qed


lemma limit_cases:
  fixes p :: jsnum
  defines "l \<equiv> Math_min (or_default p (Num 50)) (Num 100)"
  assumes p: "p = NaN \<or> p = PosInfinity \<or> p = NegInfinity \<or> (\<exists>n. p = Num (of_int n))"
  shows "l \<noteq> NaN \<and> \<not> js_less (Num 100) l
    \<and> (\<not> js_less p (Num 0) \<longrightarrow> (\<exists>n. l = Num (of_int n) \<and> 1 \<le> n \<and> n \<le> 100))"
proof -
  have h: "Num 100 = Num (of_int 100)" "Num 50 = Num (of_int 50)" by simp_all
  from p consider "p = NaN" | "p = PosInfinity" | "p = NegInfinity" | n where "p = Num (of_int n)"
    by blast
  then show ?thesis
  proof cases
    case 1
    then have "l = Num (of_int 50)" by (simp add: l_def or_default_def Math_min_def)
    then show ?thesis by (simp del: of_int_numeral)
  next
    case 2
    then have "l = Num (of_int 100)" by (simp add: l_def or_default_def Math_min_def)
    with 2 show ?thesis by (simp del: of_int_numeral)
  next
    case 3
    then show ?thesis by (simp add: l_def or_default_def Math_min_def)
  next
    case 4
    show ?thesis
    proof (cases "n = 0")
      case True
      with 4 have "l = Num (of_int 50)" by (simp add: l_def or_default_def Math_min_def)
      then show ?thesis by (simp del: of_int_numeral)
    next
      case False
      show ?thesis
      proof (cases "100 < n")
        case True
        with 4 False have "l = Num (of_int 100)"
          by (simp add: l_def or_default_def Math_min_def)
        then show ?thesis by (simp del: of_int_numeral)
      next
        case n: False
        with 4 False have l: "l = Num (of_int n)"
          by (simp add: l_def or_default_def Math_min_def)
        have "\<not> js_less p (Num 0) \<Longrightarrow> 1 \<le> n" using 4 False by simp
        with l n show ?thesis by auto
      qed
    qed
  qed
qed

text \<open>
  Claim C3, amended. The limit of the page query is never more than 100, and it
  is an integer from 1 to 100 for every value of the limit parameter that
  \<open>parseInt\<close> does not read as a negative number: absent, not numeric, zero,
  or positive, also above 100.
\<close>

theorem limit_bounds:
  assumes "SelectPage f d l off \<in> set (trace (get_participants E db q))"
  shows "l = Math_min (or_default (parseInt (q ''limit'')) (Num 50)) (Num 100)
    \<and> l \<noteq> NaN \<and> \<not> js_less (Num 100) l
    \<and> (\<not> js_less (parseInt (q ''limit'')) (Num 0) \<longrightarrow>
          (\<exists>n. l = Num (of_int n) \<and> 1 \<le> n \<and> n \<le> 100))"
proof -
  have "l = Math_min (or_default (parseInt (q ''limit'')) (Num 50)) (Num 100)"
    using assms unfolding get_participants_def list_query_def Let_def
    by (auto simp: finish_def split: qval.splits if_splits option.splits)
  with limit_cases [OF parseInt_cases [of "q ''limit''"]] show ?thesis by simp
qed


lemma fl_zero [simp]: "fl 0 = 0"
  by (simp add: fl_def)

lemma fl_one [simp]: "fl 1 = 1"
  using fl_small_int [of 1] by simp

lemma fl_numeral: "(numeral k :: int) < 2 ^ 53 \<Longrightarrow> fl (numeral k) = numeral k"
  using fl_small_int [of "numeral k"] by simp

lemma fl_neg_numeral: "(numeral k :: int) < 2 ^ 53 \<Longrightarrow> fl (- numeral k) = - numeral k"
  using fl_small_int [of "- numeral k"] by simp

lemma to_double_small_int:
  "\<bar>n\<bar> < 2 ^ 53 \<Longrightarrow> to_double (of_int n) = Num (of_int n)"
proof -
  assume a: "\<bar>n\<bar> < 2 ^ 53"
  have "(2::int) ^ 53 < 2 ^ 1024" by simp
  with a have "n < 2 ^ 1024" "- (2 ^ 1024) < n" by linarith+
  then have "(of_int n :: rat) < of_int (2 ^ 1024)" "(of_int (- (2 ^ 1024)) :: rat) < of_int n"
    by (simp_all only: of_int_less_iff)
  then have "(of_int n :: rat) < 2 ^ 1024" "- (2 ^ 1024) < (of_int n :: rat)" by simp_all
  then show ?thesis using a by (simp add: to_double_def fl_small_int Let_def not_le)
qed

lemma to_double_numeral:
  "(numeral k :: int) < 2 ^ 53 \<Longrightarrow> to_double (numeral k) = Num (numeral k)"
  using to_double_small_int [of "numeral k"] by simp

lemma to_double_neg_numeral:
  "(numeral k :: int) < 2 ^ 53 \<Longrightarrow> to_double (- numeral k) = Num (- numeral k)"
  using to_double_small_int [of "- numeral k"] by simp

lemma to_double_zero [simp]: "to_double 0 = Num 0"
  using to_double_small_int [of 0] by simp

lemma to_double_one [simp]: "to_double 1 = Num 1"
  using to_double_small_int [of 1] by simp

lemmas list_eval =
  get_participants_def list_query_def Let_def parseInt_def parseInt_string_def js_def
  is_white_space_def is_digit_def digits_value_def or_default_def Math_min_def js_sub_def
  to_double_numeral to_double_neg_numeral example_env_def select_page_def finish_def
  internal_error_def json_def allowedSortFields_def

text \<open>
  Claim C3 as stated fails: a negative limit is passed on to the query as it is,
  and the store rejects the statement.
\<close>

theorem negative_limit_unclamped:
  "trace (get_participants example_env [] [''limit'' \<mapsto> QStr (js ''-5'')])
     = [Connect, SelectPage (js ''full_name'') False (Num (- 5)) (Num 0)]
   \<and> status (reply (get_participants example_env [] [''limit'' \<mapsto> QStr (js ''-5'')])) = 500"
  by (simp add: list_eval)

text \<open>
  Claim C7 as stated fails: a sortBy that is present and empty is not in the
  allow-list, and the list is returned with status 200, ordered by full_name.
\<close>

theorem empty_sortBy_accepted:
  "[] \<notin> set allowedSortFields
   \<and> status (reply (get_participants example_env [] [''sortBy'' \<mapsto> QStr []])) = 200
   \<and> trace (get_participants example_env [] [''sortBy'' \<mapsto> QStr []])
       = [Connect, SelectPage (js ''full_name'') False (Num 50) (Num 0), SelectCount]"
  by (simp add: list_eval)


text \<open>
  The limit bound at \<open>limit=250\<close>: the page query runs with limit 100.
\<close>

theorem limit_bounds_witness:
  "SelectPage (js ''full_name'') False (Num 100) (Num 0)
     \<in> set (trace (get_participants example_env [] [''limit'' \<mapsto> QStr (js ''250'')]))
   \<and> \<not> js_less (parseInt ([''limit'' \<mapsto> QStr (js ''250'')] ''limit'')) (Num 0)
   \<and> (\<exists>n. Num 100 = Num (of_int n) \<and> 1 \<le> n \<and> n \<le> 100)"
proof -
  have h: "SelectPage (js ''full_name'') False (Num 100) (Num 0)
     \<in> set (trace (get_participants example_env [] [''limit'' \<mapsto> QStr (js ''250'')]))"
    by (simp add: list_eval)
  have p: "\<not> js_less (parseInt ([''limit'' \<mapsto> QStr (js ''250'')] ''limit'')) (Num 0)"
    by (simp add: list_eval)
  from limit_bounds [OF h] p h show ?thesis by blast
qed

lemma default_sort_allowed: "js ''full_name'' \<in> set allowedSortFields"
  by (simp add: allowedSortFields_def)

lemma empty_sort_not_allowed: "[] \<notin> set allowedSortFields"
  by (simp add: allowedSortFields_def js_def)

lemma list_query_trace:
  "take 1 (trace (list_query E db page limit offset f d)) = [Connect]
   \<and> (fault E 0 = None \<longrightarrow>
        (\<exists>rest. trace (list_query E db page limit offset f d)
           = Connect # SelectPage f d limit offset # rest))"
  by (simp add: list_query_def finish_def Let_def split: option.splits)

text \<open>
  Claim C7, amended. A sortBy that is present, not the empty string and not one
  of full_name, age, final_average, first_semester, second_semester is answered
  with 400 before any call to the pool or the store. A sortBy of the allow-list,
  and an absent or empty one as full_name, lets the request connect and, the
  connection given, run the page query ordered by that field, descending exactly
  when sortOrder is \<open>desc\<close>.
\<close>

theorem sort_gate:
  "(q ''sortBy'' = Some v \<and> v \<noteq> QStr [] \<and> v \<notin> QStr ` set allowedSortFields \<longrightarrow>
      status (reply (get_participants E db q)) = 400
      \<and> trace (get_participants E db q) = [] \<and> store (get_participants E db q) = db)
   \<and> (q ''sortBy'' = Some (QStr f) \<and> f \<in> set allowedSortFields
       \<or> (q ''sortBy'' = None \<or> q ''sortBy'' = Some (QStr [])) \<and> f = js ''full_name'' \<longrightarrow>
      take 1 (trace (get_participants E db q)) = [Connect]
      \<and> (fault E 0 = None \<longrightarrow>
           (\<exists>l off rest. trace (get_participants E db q)
              = Connect # SelectPage f (q ''sortOrder'' = Some (QStr (js ''desc''))) l off # rest)))"
proof (intro conjI impI)
  assume a: "q ''sortBy'' = Some v \<and> v \<noteq> QStr [] \<and> v \<notin> QStr ` set allowedSortFields"
  then show "status (reply (get_participants E db q)) = 400"
    "trace (get_participants E db q) = []" "store (get_participants E db q) = db"
    by (auto simp: get_participants_def Let_def finish_def json_def split: qval.splits)
next
  assume a: "q ''sortBy'' = Some (QStr f) \<and> f \<in> set allowedSortFields
       \<or> (q ''sortBy'' = None \<or> q ''sortBy'' = Some (QStr [])) \<and> f = js ''full_name''"
  define page where "page = or_default (parseInt (q ''page'')) (Num 1)"
  define limit where "limit = Math_min (or_default (parseInt (q ''limit'')) (Num 50)) (Num 100)"
  have g: "get_participants E db q
      = list_query E db page limit (js_mul (js_sub page (Num 1)) limit) f
          (q ''sortOrder'' = Some (QStr (js ''desc'')))"
    using a empty_sort_not_allowed default_sort_allowed
    by (auto simp: get_participants_def Let_def page_def limit_def)
  show "take 1 (trace (get_participants E db q)) = [Connect]"
    using list_query_trace by (simp add: g)
  assume "fault E 0 = None"
  then show "\<exists>l off rest. trace (get_participants E db q)
      = Connect # SelectPage f (q ''sortOrder'' = Some (QStr (js ''desc''))) l off # rest"
    using list_query_trace [of E db page limit "js_mul (js_sub page (Num 1)) limit" f
        "q ''sortOrder'' = Some (QStr (js ''desc''))"]
    by (auto simp: g)
qed

text \<open>
  The sort gate at two requests: an object as sortBy is answered with 400, and
  \<open>sortBy=age\<close> runs the page query ordered by age.
\<close>

theorem sort_gate_witness:
  "QObj \<noteq> QStr [] \<and> QObj \<notin> QStr ` set allowedSortFields
   \<and> status (reply (get_participants example_env [] [''sortBy'' \<mapsto> QObj])) = 400
   \<and> trace (get_participants example_env [] [''sortBy'' \<mapsto> QObj]) = []
   \<and> js ''age'' \<in> set allowedSortFields
   \<and> fault example_env 0 = None
   \<and> (\<exists>l off rest. trace (get_participants example_env [] [''sortBy'' \<mapsto> QStr (js ''age'')])
        = Connect # SelectPage (js ''age'') False l off # rest)"
proof -
  have 1: "QObj \<notin> QStr ` set allowedSortFields" by auto
  have 2: "js ''age'' \<in> set allowedSortFields" by (simp add: allowedSortFields_def)
  have 3: "fault example_env 0 = None" by (simp add: example_env_def)
  from 1 2 3
    sort_gate [where q = "[''sortBy'' \<mapsto> QObj]" and v = QObj and E = example_env
      and db = "[]" and f = "js ''age''"]
    sort_gate [where q = "[''sortBy'' \<mapsto> QStr (js ''age'')]" and v = QObj
      and E = example_env and db = "[]" and f = "js ''age''"]
  show ?thesis by simp
qed

section \<open>POST /api/participants\<close>

lemma validate_Some_status: "validateParticipantData b = Some r \<Longrightarrow> status r = 400"
  by (auto simp: validateParticipantData_def Let_def json_def split: if_splits)

lemma validate_None_fields:
  "validateParticipantData b = None \<Longrightarrow>
     name_errors (field b ''full_name'') = [] \<and> age_errors (field b ''age'') = []
     \<and> semester_errors msg_first_semester (field b ''first_semester'') = []
     \<and> semester_errors msg_second_semester (field b ''second_semester'') = []"
  by (simp add: validateParticipantData_def Let_def split: if_splits)

lemma name_ok:
  "name_errors v = [] \<Longrightarrow>
     v = JUndefined \<or> (\<exists>nm. v = JStr nm \<and> trim nm \<noteq> [] \<and> length (trim nm) \<le> 255)"
  by (cases v) (auto simp: name_errors_def split: if_splits)

lemma age_ok:
  "age_errors v = [] \<Longrightarrow>
     v = JUndefined \<or> (\<exists>k. v = JNum (Num (of_int k)) \<and> 1 \<le> k \<and> k \<le> 150)"
proof (cases v)
  case (JNum n)
  assume e: "age_errors v = []"
  with JNum obtain a where n: "n = Num a" and i: "of_int \<lfloor>a\<rfloor> = a"
    by (cases n) (auto simp: age_errors_def split: if_splits)
  define k where "k = \<lfloor>a\<rfloor>"
  have a: "a = of_int k" using i unfolding k_def by (rule sym)
  from e JNum n have "0 < a" "a \<le> 150"
    by (auto simp: age_errors_def js_less_eq_def js_greater_def split: if_splits)
  then have "1 \<le> k" "k \<le> 150" unfolding a by simp_all
  with JNum n a show ?thesis by blast
qed (auto simp: age_errors_def split: if_splits)

lemma semester_ok:
  "semester_errors m v = [] \<Longrightarrow>
     v = JUndefined \<or> v = JNum NaN \<or> (\<exists>a. v = JNum (Num a) \<and> 0 \<le> a \<and> a \<le> 10)"
proof (cases v)
  case (JNum n)
  assume "semester_errors m v = []"
  with JNum show ?thesis
    by (cases n) (auto simp: semester_errors_def js_greater_def split: if_splits)
qed (auto simp: semester_errors_def split: if_splits)

lemma mentions_required:
  "mentions (js ''full_name'') msg_required \<and> mentions (js ''age'') msg_required
   \<and> mentions (js ''first_semester'') msg_required
   \<and> mentions (js ''second_semester'') msg_required"
  by (simp add: msg_required_def js_def)

lemmas validate_eval =
  validateParticipantData_def field_def name_errors_def age_errors_def semester_errors_def
  trim_def is_white_space_def js_def js_less_eq_def js_greater_def Let_def

text \<open>
  Claim C4 as stated fails: the error for missing fields is one fixed message. For
  a body with full_name and age and no semester score it names full_name, which
  is not missing.
\<close>

theorem required_message_names_all:
  "field partial_body ''full_name'' \<noteq> JUndefined
   \<and> field partial_body ''second_semester'' = JUndefined
   \<and> reply (post_participants example_env [] partial_body) = json 400 (ErrorJson msg_required)
   \<and> mentions (js ''full_name'') msg_required"
proof -
  have "validateParticipantData partial_body = None"
    by (simp add: validate_eval partial_body_def)
  then show ?thesis
    using mentions_required
    by (simp add: post_participants_def field_def partial_body_def finish_def)
qed

text \<open>
  Claim C4, amended. A create request whose body lacks at least one of full_name,
  age, first_semester, second_semester is answered with status 400, without any
  call to the pool or the store and with the table unchanged. When the fields that
  are present pass validateParticipantData, the error is the fixed message that
  names all four required fields, whichever of them are missing.
\<close>

theorem create_missing_fields:
  assumes "field b ''full_name'' = JUndefined \<or> field b ''age'' = JUndefined
    \<or> field b ''first_semester'' = JUndefined \<or> field b ''second_semester'' = JUndefined"
  shows "status (reply (post_participants E db b)) = 400
    \<and> trace (post_participants E db b) = [] \<and> store (post_participants E db b) = db
    \<and> (validateParticipantData b = None \<longrightarrow>
         body (reply (post_participants E db b)) = ErrorJson msg_required
         \<and> mentions (js ''full_name'') msg_required \<and> mentions (js ''age'') msg_required
         \<and> mentions (js ''first_semester'') msg_required
         \<and> mentions (js ''second_semester'') msg_required)"
proof (cases "validateParticipantData b")
  case None
  with assms mentions_required show ?thesis
    by (auto simp: post_participants_def Let_def finish_def json_def)
next
  case (Some r)
  with validate_Some_status [OF Some] show ?thesis
    by (simp add: post_participants_def finish_def)
qed

text \<open>
  The missing-field answer for the body of the tests, with full_name and age only.
\<close>

theorem create_missing_fields_witness:
  "field partial_body ''second_semester'' = JUndefined
   \<and> validateParticipantData partial_body = None
   \<and> status (reply (post_participants example_env [] partial_body)) = 400
   \<and> trace (post_participants example_env [] partial_body) = []
   \<and> body (reply (post_participants example_env [] partial_body)) = ErrorJson msg_required"
proof -
  have 1: "field partial_body ''second_semester'' = JUndefined"
    by (simp add: field_def partial_body_def)
  have 2: "validateParticipantData partial_body = None"
    by (simp add: validate_eval partial_body_def)
  from 1 2 create_missing_fields [of partial_body example_env "[]"] show ?thesis by blast
qed

lemma calculateFinalAverage_Num:
  "calculateFinalAverage E (JNum x) (JNum y)
     = (if x = NaN \<or> y = NaN then Inl msg_grades else Inr (js_average x y))"
  by (simp add: calculateFinalAverage_def parseFloat_def isNaN_def js_average_def)

lemma post_valid:
  assumes "validateParticipantData b = None" and "field b ''full_name'' = JStr nm"
    and "field b ''age'' \<noteq> JUndefined" and "field b ''first_semester'' \<noteq> JUndefined"
    and "field b ''second_semester'' \<noteq> JUndefined"
  shows "\<exists>a f s. field b ''age'' = JNum a \<and> field b ''first_semester'' = JNum f
    \<and> field b ''second_semester'' = JNum s
    \<and> post_participants E db b =
        (if f = NaN \<or> s = NaN then finish (json 400 (ErrorJson msg_grades)) db []
         else post_insert E db (trim nm) (JNum a) (JNum f) (JNum s) (js_average f s))"
proof -
  note e = validate_None_fields [OF assms(1)]
  from e assms(2) name_ok [of "field b ''full_name''"] have nm: "nm \<noteq> []"
    by (auto simp: trim_def)
  from e assms(3) age_ok [of "field b ''age''"] obtain a where a: "field b ''age'' = JNum a"
    by auto
  from e assms(4) semester_ok [of msg_first_semester "field b ''first_semester''"]
  obtain f where f: "field b ''first_semester'' = JNum f" by auto
  from e assms(5) semester_ok [of msg_second_semester "field b ''second_semester''"]
  obtain s where s: "field b ''second_semester'' = JNum s" by auto
  have "post_participants E db b =
        (if f = NaN \<or> s = NaN then finish (json 400 (ErrorJson msg_grades)) db []
         else post_insert E db (trim nm) (JNum a) (JNum f) (JNum s) (js_average f s))"
    using assms(1,2) nm a f s
    by (simp add: post_participants_def Let_def calculateFinalAverage_Num)
  with a f s show ?thesis by blast
qed

text \<open>
  Claim C5 as stated fails, in both of its halves. The name is compared after trim:
  with Maria Santos in the table, a valid create request for that name padded with
  spaces is answered with 409, although the supplied name does not equal the stored
  one in any case. And the body is validated first: a request with the name of
  Maria Santos and the age -5 is answered with 400, not with 409.
\<close>

theorem create_conflict_not_as_stated:
  "ascii_lower (full_name maria) \<noteq> ascii_lower (js '' Maria Santos '')
   \<and> validateParticipantData (create_body (js '' Maria Santos '')) = None
   \<and> status (reply (post_participants example_env [maria] (create_body (js '' Maria Santos ''))))
       = 409
   \<and> ascii_lower (full_name maria) = ascii_lower (js ''Maria Santos'')
   \<and> status (reply (post_participants example_env [maria]
         ((create_body (js ''Maria Santos''))(''age'' \<mapsto> JNum (Num (- 5)))))) = 400"
proof -
  have 1: "validateParticipantData (create_body (js '' Maria Santos '')) = None"
    by (simp add: validate_eval create_body_def)
  have 2: "trim (js '' Maria Santos '') = js ''Maria Santos''"
    by (simp add: trim_def is_white_space_def js_def)
  have 3: "ascii_lower (full_name maria) \<noteq> ascii_lower (js '' Maria Santos '')"
    by (simp add: maria_def ascii_lower_def js_def)
  have 4: "js '' Maria Santos '' \<noteq> []" by (simp add: js_def)
  have 5: "status (reply (post_participants example_env [maria]
      (create_body (js '' Maria Santos '')))) = 409"
    using 1 4 by (simp add: post_participants_def field_def create_body_def Let_def 2
        calculateFinalAverage_Num post_insert_def example_env_def select_id_by_name_def
        maria_def finish_def json_def)
  have "validateParticipantData
      ((create_body (js ''Maria Santos''))(''age'' \<mapsto> JNum (Num (- 5))))
      = Some (json 400 (ErrorDetailsJson msg_invalid_data [msg_age]))"
    by (simp add: validate_eval create_body_def)
  then have 6: "ascii_lower (full_name maria) = ascii_lower (js ''Maria Santos'')
    \<and> status (reply (post_participants example_env [maria]
         ((create_body (js ''Maria Santos''))(''age'' \<mapsto> JNum (Num (- 5)))))) = 400"
    by (simp add: post_participants_def finish_def json_def maria_def)
  from 1 3 5 6 show ?thesis by simp
qed

text \<open>
  Claim C5, amended. Take a create request that passes validateParticipantData,
  with all four fields present and no NaN score, and no storage call rejected. If
  its full_name, trimmed, equals the full_name of some participant under the case
  mapping of the store, the answer is 409 and no row is inserted: the name query is
  the only statement. Otherwise the answer is 201 with the new row, which is
  appended to the table and carries the generated id, the trimmed name, the age and
  the scores of the body, and the final average computed from these scores.
\<close>

theorem create_conflict_or_created:
  assumes "validateParticipantData b = None" and "field b ''full_name'' = JStr nm"
    and "field b ''age'' \<noteq> JUndefined" and "field b ''first_semester'' \<noteq> JUndefined"
    and "field b ''second_semester'' \<noteq> JUndefined"
    and "field b ''first_semester'' \<noteq> JNum NaN" and "field b ''second_semester'' \<noteq> JNum NaN"
    and "\<forall>k. fault E k = None"
  shows "if \<exists>r \<in> set db. LOWER E (full_name r) = LOWER E (trim nm)
         then status (reply (post_participants E db b)) = 409
           \<and> store (post_participants E db b) = db
           \<and> trace (post_participants E db b) = [Connect, SelectIdByName (trim nm)]
         else \<exists>row. reply (post_participants E db b) = json 201 (ParticipantJson row)
           \<and> store (post_participants E db b) = db @ [row]
           \<and> id_col row = gen_random_uuid E \<and> full_name row = trim nm
           \<and> JNum (age row) = field b ''age''
           \<and> JNum (first_semester row) = field b ''first_semester''
           \<and> JNum (second_semester row) = field b ''second_semester''
           \<and> calculateFinalAverage E (field b ''first_semester'') (field b ''second_semester'')
               = Inr (final_average row)"
proof -
  from post_valid [OF assms(1-5), of E db] obtain a f s where
    a: "field b ''age'' = JNum a" and f: "field b ''first_semester'' = JNum f"
    and s: "field b ''second_semester'' = JNum s"
    and p: "post_participants E db b =
        (if f = NaN \<or> s = NaN then finish (json 400 (ErrorJson msg_grades)) db []
         else post_insert E db (trim nm) (JNum a) (JNum f) (JNum s) (js_average f s))"
    by blast
  from assms(6,7) f s have n: "f \<noteq> NaN" "s \<noteq> NaN" by auto
  have c: "(\<exists>r \<in> set db. LOWER E (full_name r) = LOWER E (trim nm))
      \<longleftrightarrow> select_id_by_name E db (trim nm) \<noteq> []"
    by (auto simp: select_id_by_name_def filter_empty_conv)
  show ?thesis
    using assms(8) n
    by (simp add: c p a f s post_insert_def Let_def finish_def json_def
        calculateFinalAverage_Num)
qed

text \<open>
  Create with Maria Santos in the table: the name in capitals is answered with 409
  and a new name with 201.
\<close>

theorem create_conflict_or_created_witness:
  "validateParticipantData (create_body (js ''MARIA SANTOS'')) = None
   \<and> (\<exists>r \<in> set [maria]. LOWER example_env (full_name r) = LOWER example_env (js ''MARIA SANTOS''))
   \<and> status (reply (post_participants example_env [maria] (create_body (js ''MARIA SANTOS''))))
       = 409
   \<and> store (post_participants example_env [maria] (create_body (js ''MARIA SANTOS''))) = [maria]
   \<and> validateParticipantData (create_body (js ''Ana Lima'')) = None
   \<and> (\<exists>row. reply (post_participants example_env [maria] (create_body (js ''Ana Lima'')))
          = json 201 (ParticipantJson row)
        \<and> store (post_participants example_env [maria] (create_body (js ''Ana Lima'')))
          = [maria, row]
        \<and> full_name row = js ''Ana Lima'')"
proof -
  have v: "validateParticipantData (create_body (js ''MARIA SANTOS'')) = None"
    "validateParticipantData (create_body (js ''Ana Lima'')) = None"
    by (simp_all add: validate_eval create_body_def)
  have t: "trim (js ''MARIA SANTOS'') = js ''MARIA SANTOS''"
    "trim (js ''Ana Lima'') = js ''Ana Lima''"
    by (simp_all add: trim_def is_white_space_def js_def)
  have c: "\<exists>r \<in> set [maria]. LOWER example_env (full_name r)
      = LOWER example_env (js ''MARIA SANTOS'')"
    "\<not> (\<exists>r \<in> set [maria]. LOWER example_env (full_name r)
      = LOWER example_env (js ''Ana Lima''))"
    by (simp_all add: maria_def example_env_def ascii_lower_def js_def)
  have f: "\<forall>k. fault example_env k = None" by (simp add: example_env_def)
  have b: "\<And>nm. field (create_body nm) ''full_name'' = JStr nm"
    "\<And>nm. field (create_body nm) ''age'' \<noteq> JUndefined"
    "\<And>nm. field (create_body nm) ''first_semester'' \<noteq> JUndefined"
    "\<And>nm. field (create_body nm) ''second_semester'' \<noteq> JUndefined"
    "\<And>nm. field (create_body nm) ''first_semester'' \<noteq> JNum NaN"
    "\<And>nm. field (create_body nm) ''second_semester'' \<noteq> JNum NaN"
    by (simp_all add: field_def create_body_def)
  from create_conflict_or_created [OF v(1) b f, of "[maria]"] c(1) t(1)
  have 1: "status (reply (post_participants example_env [maria] (create_body (js ''MARIA SANTOS''))))
       = 409
   \<and> store (post_participants example_env [maria] (create_body (js ''MARIA SANTOS''))) = [maria]"
    by simp
  from create_conflict_or_created [OF v(2) b f, of "[maria]"] c(2) t(2)
  have 2: "\<exists>row. reply (post_participants example_env [maria] (create_body (js ''Ana Lima'')))
          = json 201 (ParticipantJson row)
        \<and> store (post_participants example_env [maria] (create_body (js ''Ana Lima'')))
          = [maria, row]
        \<and> full_name row = js ''Ana Lima''"
    by auto
  from v c(1) 1 2 show ?thesis by blast
qed

section \<open>The id check of GET, PUT and DELETE\<close>

lemma put_valid_trace:
  assumes "uuid_accepted i" and "validateParticipantData b = None"
  shows "take 1 (trace (put_participant E db i b)) = [Connect]
    \<and> (fault E 0 = None \<longrightarrow>
         take 2 (trace (put_participant E db i b)) = [Connect, SelectById i])"
proof -
  from assms(1) have v: "validateUUID i = None" by (simp add: validateUUID_None)
  have e: "\<And>cur. take 2 (trace (put_existing E db i b cur [Connect, SelectById i]))
      = [Connect, SelectById i]
    \<and> take 1 (trace (put_existing E db i b cur [Connect, SelectById i])) = [Connect]"
  proof -
    fix cur
    from put_existing_trace [of E db i b cur "[Connect, SelectById i]"]
    show "take 2 (trace (put_existing E db i b cur [Connect, SelectById i]))
      = [Connect, SelectById i]
    \<and> take 1 (trace (put_existing E db i b cur [Connect, SelectById i])) = [Connect]"
      by auto
  qed
  show ?thesis
    using e by (simp add: put_participant_def v assms(2) finish_def
        split: option.splits list.splits)
qed

text \<open>
  Claim C2 as stated fails: the regular expression of validateUUID asks more than
  the 8-4-4-4-12 grouping. The nil UUID has the grouping and is answered with 400.
\<close>

theorem nil_uuid_rejected:
  "uuid_shaped (js ''00000000-0000-0000-0000-000000000000'')
   \<and> validateUUID (js ''00000000-0000-0000-0000-000000000000'')
       = Some (json 400 (ErrorJson msg_invalid_uuid))"
  by (simp add: uuid_shaped_def uuid_grouping_def validateUUID_def uuidRegex_def js_def)

text \<open>
  Claim C2, amended. Call an id accepted when it is UUID-shaped with a third group
  beginning with 1 to 5 and a fourth group beginning with 8, 9, a or b. GET and
  DELETE on /api/participants/:id answer 400 without any call to the pool or the
  store if and only if the id is not accepted; PUT does so if and only if the id is
  not accepted or the body fails validateParticipantData. An id that is not accepted
  is answered with 400 by all three, with no storage call and the table unchanged.
  An accepted id passes validateUUID: GET and DELETE connect to the store and, when
  the connection is granted, send the statement on that id as their next call; PUT
  with a body that passes validation connects and, when the connection is granted,
  sends the lookup of the id; PUT with a body that fails validation is answered with
  400 without any storage call and the table unchanged.
\<close>

theorem id_gate:
  "(status (reply (get_participant E db i)) = 400 \<and> trace (get_participant E db i) = []
      \<longleftrightarrow> \<not> uuid_accepted i)
   \<and> (status (reply (delete_participant E db i)) = 400
        \<and> trace (delete_participant E db i) = []
      \<longleftrightarrow> \<not> uuid_accepted i)
   \<and> (status (reply (put_participant E db i b)) = 400
        \<and> trace (put_participant E db i b) = []
      \<longleftrightarrow> \<not> uuid_accepted i \<or> validateParticipantData b \<noteq> None)
   \<and> (\<not> uuid_accepted i \<longrightarrow>
      status (reply (get_participant E db i)) = 400
      \<and> trace (get_participant E db i) = [] \<and> store (get_participant E db i) = db
      \<and> status (reply (put_participant E db i b)) = 400
      \<and> trace (put_participant E db i b) = [] \<and> store (put_participant E db i b) = db
      \<and> status (reply (delete_participant E db i)) = 400
      \<and> trace (delete_participant E db i) = [] \<and> store (delete_participant E db i) = db)
   \<and> (uuid_accepted i \<longrightarrow>
      validateUUID i = None
      \<and> take 1 (trace (get_participant E db i)) = [Connect]
      \<and> (fault E 0 = None \<longrightarrow>
           take 2 (trace (get_participant E db i)) = [Connect, SelectById i])
      \<and> take 1 (trace (delete_participant E db i)) = [Connect]
      \<and> (fault E 0 = None \<longrightarrow>
           take 2 (trace (delete_participant E db i)) = [Connect, DeleteById i])
      \<and> (validateParticipantData b = None \<longrightarrow>
           take 1 (trace (put_participant E db i b)) = [Connect]
           \<and> (fault E 0 = None \<longrightarrow>
                take 2 (trace (put_participant E db i b)) = [Connect, SelectById i]))
      \<and> (validateParticipantData b \<noteq> None \<longrightarrow>
           status (reply (put_participant E db i b)) = 400
           \<and> trace (put_participant E db i b) = []
           \<and> store (put_participant E db i b) = db))"
proof -
  have rej: "status (reply (get_participant E db i)) = 400
      \<and> trace (get_participant E db i) = [] \<and> store (get_participant E db i) = db
      \<and> status (reply (put_participant E db i b)) = 400
      \<and> trace (put_participant E db i b) = [] \<and> store (put_participant E db i b) = db
      \<and> status (reply (delete_participant E db i)) = 400
      \<and> trace (delete_participant E db i) = [] \<and> store (delete_participant E db i) = db"
    if n: "\<not> uuid_accepted i"
  proof -
    note r = validateUUID_Some [OF n]
    show ?thesis
      by (simp add: get_participant_def put_participant_def delete_participant_def r
          finish_def json_def)
  qed
  have acc: "validateUUID i = None
      \<and> take 1 (trace (get_participant E db i)) = [Connect]
      \<and> (fault E 0 = None \<longrightarrow>
           take 2 (trace (get_participant E db i)) = [Connect, SelectById i])
      \<and> take 1 (trace (delete_participant E db i)) = [Connect]
      \<and> (fault E 0 = None \<longrightarrow>
           take 2 (trace (delete_participant E db i)) = [Connect, DeleteById i])"
    if a: "uuid_accepted i"
  proof -
    from a have v: "validateUUID i = None" by (simp add: validateUUID_None)
    show ?thesis
      by (simp add: v get_participant_def delete_participant_def finish_def
          split: option.splits list.splits)
  qed
  have bad: "status (reply (put_participant E db i b)) = 400
           \<and> trace (put_participant E db i b) = []
           \<and> store (put_participant E db i b) = db"
    if a: "uuid_accepted i" and d: "validateParticipantData b \<noteq> None"
  proof -
    from a have v: "validateUUID i = None" by (simp add: validateUUID_None)
    from d obtain r where r: "validateParticipantData b = Some r" by auto
    from validate_Some_status [OF r] show ?thesis
      by (simp add: put_participant_def v r finish_def)
  qed
  have g: "trace (get_participant E db i) \<noteq> []" "trace (delete_participant E db i) \<noteq> []"
    if a: "uuid_accepted i"
    using acc [OF a] by auto
  have p: "trace (put_participant E db i b) \<noteq> []"
    if a: "uuid_accepted i" and d: "validateParticipantData b = None"
    using put_valid_trace [OF a d, of E db] by auto
  show ?thesis
    using rej acc bad g p put_valid_trace [of i b E db] by blast
qed

text \<open>
  The id check at two ids: \<open>invalid-uuid\<close> is rejected before any storage call;
  with the id of the tests GET, DELETE and a PUT with an empty body connect and send
  their statement on the id, and a PUT with the age -5 is rejected before any
  storage call.
\<close>

theorem id_gate_witness:
  "\<not> uuid_accepted (js ''invalid-uuid'')
   \<and> status (reply (get_participant example_env [] (js ''invalid-uuid''))) = 400
   \<and> trace (delete_participant example_env [] (js ''invalid-uuid'')) = []
   \<and> uuid_accepted valid_id
   \<and> fault example_env 0 = None
   \<and> validateParticipantData Map.empty = None
   \<and> take 2 (trace (get_participant example_env [] valid_id)) = [Connect, SelectById valid_id]
   \<and> take 2 (trace (delete_participant example_env [] valid_id))
       = [Connect, DeleteById valid_id]
   \<and> take 2 (trace (put_participant example_env [] valid_id Map.empty))
       = [Connect, SelectById valid_id]
   \<and> validateParticipantData bad_age_body \<noteq> None
   \<and> status (reply (put_participant example_env [] valid_id bad_age_body)) = 400
   \<and> trace (put_participant example_env [] valid_id bad_age_body) = []"
proof -
  have n: "\<not> uuid_accepted (js ''invalid-uuid'')"
    by (simp add: uuid_accepted_def uuid_shaped_def uuid_grouping_def js_def)
  have d: "validateParticipantData Map.empty = None"
    by (simp add: validateParticipantData_def field_def name_errors_def age_errors_def
        semester_errors_def)
  have f: "fault example_env 0 = None" by (simp add: example_env_def)
  have e: "validateParticipantData bad_age_body \<noteq> None"
    by (simp add: validate_eval bad_age_body_def)
  from n d f e valid_id_accepted
    id_gate [of example_env "[]" "js ''invalid-uuid''" Map.empty]
    id_gate [of example_env "[]" valid_id Map.empty]
    id_gate [of example_env "[]" valid_id bad_age_body]
  show ?thesis by blast
qed

section \<open>DELETE and PUT /api/participants/:id\<close>





lemma select_update_rows:
  "select_by_id (update_rows db n a f s avg i) i
     = map (\<lambda>r. r\<lparr>full_name := n, age := a, first_semester := f, second_semester := s,
                   final_average := avg\<rparr>) (select_by_id db i)"
  by (induction db) (auto simp: select_by_id_def update_rows_def)

lemma update_rows_frame:
  "filter (\<lambda>r. id_col r \<noteq> uuid_in i) (update_rows db n a f s avg i)
     = filter (\<lambda>r. id_col r \<noteq> uuid_in i) db"
  by (induction db) (auto simp: update_rows_def)

lemma update_rows_ids: "map id_col (update_rows db n a f s avg i) = map id_col db"
  by (induction db) (auto simp: update_rows_def)

lemma put_existing_valid:
  fixes E :: env and db :: "participant list" and i :: jsstring and b :: req_body
    and current :: participant and tr :: "dbop list"
  assumes "validateParticipantData b = None"
  defines "n \<equiv> updated_name b current"
    and "a \<equiv> updated_number b ''age'' (age current)"
    and "f \<equiv> updated_number b ''first_semester'' (first_semester current)"
    and "s \<equiv> updated_number b ''second_semester'' (second_semester current)"
  defines "q \<equiv> SelectIdByNameExcept n i"
    and "w \<equiv> UpdateParticipant n (JNum a) (JNum f) (JNum s) (js_average f s) i"
  defines "tr' \<equiv> (if name_check_runs E b current then tr @ [q] else tr)"
  shows "put_existing E db i b current tr =
     (if name_check_runs E b current \<and> fault E (length tr) \<noteq> None
      then finish (update_catch (the (fault E (length tr)))) db (tr @ [q])
      else if name_check_runs E b current \<and> select_id_by_name_except E db n i \<noteq> []
      then finish (json 409 (ErrorJson msg_other_has_name)) db (tr @ [q])
      else if f = NaN \<or> s = NaN then finish (json 400 (ErrorJson msg_grades)) db tr'
      else if fault E (length tr') \<noteq> None
      then finish (update_catch (the (fault E (length tr')))) db (tr' @ [w])
      else (case select_by_id (update_rows db n a f s (js_average f s) i) i of
              [] \<Rightarrow> finish (json 200 NoBody) (update_rows db n a f s (js_average f s) i)
                      (tr' @ [w])
            | r # rs \<Rightarrow> finish (json 200 (ParticipantJson r))
                      (update_rows db n a f s (js_average f s) i) (tr' @ [w])))"
proof -
  note e = validate_None_fields [OF assms(1)]
  from e name_ok [of "field b ''full_name''"]
  consider "field b ''full_name'' = JUndefined" | nm where "field b ''full_name'' = JStr nm"
    by auto
  note fn = this
  from e age_ok [of "field b ''age''"]
  have ag: "(if field b ''age'' \<noteq> JUndefined then field b ''age'' else JNum (age current))
      = JNum a"
    by (auto simp: a_def updated_number_def)
  from e semester_ok [of msg_first_semester "field b ''first_semester''"]
  have fs: "(if field b ''first_semester'' \<noteq> JUndefined then field b ''first_semester''
       else JNum (first_semester current)) = JNum f"
    by (auto simp: f_def updated_number_def)
  from e semester_ok [of msg_second_semester "field b ''second_semester''"]
  have ss: "(if field b ''second_semester'' \<noteq> JUndefined then field b ''second_semester''
       else JNum (second_semester current)) = JNum s"
    by (auto simp: s_def updated_number_def)
  have w: "\<And>t. put_write E db i n (JNum a) (JNum f) (JNum s) t =
      (if f = NaN \<or> s = NaN then finish (json 400 (ErrorJson msg_grades)) db t
       else if fault E (length t) \<noteq> None
       then finish (update_catch (the (fault E (length t)))) db (t @ [w])
       else (case select_by_id (update_rows db n a f s (js_average f s) i) i of
              [] \<Rightarrow> finish (json 200 NoBody) (update_rows db n a f s (js_average f s) i)
                      (t @ [w])
            | r # rs \<Rightarrow> finish (json 200 (ParticipantJson r))
                      (update_rows db n a f s (js_average f s) i) (t @ [w])))"
    by (auto simp: put_write_def calculateFinalAverage_Num Let_def w_def split: list.splits)
  from fn show ?thesis
  proof cases
    case 1
    then have p: "put_existing E db i b current tr
        = put_write E db i n (JNum a) (JNum f) (JNum s) tr"
      unfolding put_existing_def Let_def ag fs ss
      by (simp add: n_def updated_name_def)
    have c: "\<not> name_check_runs E b current" using 1 by (simp add: name_check_runs_def)
    then have t: "tr' = tr" by (simp add: tr'_def)
    show ?thesis unfolding p w t by (simp add: c)
  next
    case 2
    then have n: "n = trim nm" by (simp add: n_def updated_name_def)
    have c: "name_check_runs E b current
        \<longleftrightarrow> toLowerCase E n \<noteq> toLowerCase E (full_name current)"
      using 2 by (simp add: name_check_runs_def n_def)
    have step: "put_existing E db i b current tr =
        (if toLowerCase E n \<noteq> toLowerCase E (full_name current)
         then (case fault E (length tr) of
                 Some e \<Rightarrow> finish (update_catch e) db (tr @ [q])
               | None \<Rightarrow>
                  if 0 < length (select_id_by_name_except E db n i)
                  then finish (json 409 (ErrorJson msg_other_has_name)) db (tr @ [q])
                  else put_write E db i n (JNum a) (JNum f) (JNum s) (tr @ [q]))
         else put_write E db i n (JNum a) (JNum f) (JNum s) tr)"
      unfolding put_existing_def Let_def ag fs ss
      using 2 by (simp add: n q_def split: option.splits)
    show ?thesis
    proof (cases "toLowerCase E n \<noteq> toLowerCase E (full_name current)")
      case True
      then have t: "tr' = tr @ [q]" by (simp add: tr'_def c)
      show ?thesis unfolding step w t using True by (auto simp: c split: option.splits)
    next
      case False
      then have t: "tr' = tr" by (simp add: tr'_def c)
      show ?thesis unfolding step w t using False by (simp add: c)
    qed
  qed
qed

lemma update_catch_status: "status (update_catch e) \<noteq> 200"
  by (simp add: update_catch_def internal_error_def json_def)

lemma put_participant_existing:
  assumes "uuid_accepted i" and "validateParticipantData b = None"
    and "fault E 0 = None" and "fault E 1 = None" and "select_by_id db i = current # rest"
  shows "put_participant E db i b = put_existing E db i b current [Connect, SelectById i]"
  using assms by (simp add: put_participant_def validateUUID_None [THEN iffD2])

lemma put_200_inv:
  assumes "status (reply (put_participant E db i b)) = 200"
  shows "uuid_accepted i \<and> validateParticipantData b = None \<and> fault E 0 = None
    \<and> fault E 1 = None \<and> select_by_id db i \<noteq> []"
proof -
  have 1: "uuid_accepted i"
  proof (rule ccontr)
    assume "\<not> uuid_accepted i"
    from validateUUID_Some [OF this] assms show False
      by (simp add: put_participant_def finish_def json_def)
  qed
  then have v: "validateUUID i = None" by (simp add: validateUUID_None)
  have 2: "validateParticipantData b = None"
  proof (cases "validateParticipantData b")
    case (Some r)
    with validate_Some_status [OF Some] assms v show ?thesis
      by (simp add: put_participant_def finish_def)
  qed simp
  have 3: "fault E 0 = None"
    using assms v 2
    by (cases "fault E 0") (auto simp: put_participant_def finish_def update_catch_status)
  have 4: "fault E 1 = None"
    using assms v 2 3
    by (cases "fault E 1") (auto simp: put_participant_def finish_def update_catch_status)
  have 5: "select_by_id db i \<noteq> []"
    using assms v 2 3 4 by (auto simp: put_participant_def finish_def json_def)
  from 1 2 3 4 5 show ?thesis by simp
qed

lemma put_200_shape:
  assumes "status (reply (put_participant E db i b)) = 200"
  shows "\<exists>current rest avg. select_by_id db i = current # rest
    \<and> validateParticipantData b = None
    \<and> reply (put_participant E db i b) = json 200 (ParticipantJson
         (current\<lparr>full_name := updated_name b current,
            age := updated_number b ''age'' (age current),
            first_semester := updated_number b ''first_semester'' (first_semester current),
            second_semester := updated_number b ''second_semester'' (second_semester current),
            final_average := avg\<rparr>))
    \<and> avg = js_average (updated_number b ''first_semester'' (first_semester current))
              (updated_number b ''second_semester'' (second_semester current))
    \<and> store (put_participant E db i b)
       = update_rows db (updated_name b current) (updated_number b ''age'' (age current))
           (updated_number b ''first_semester'' (first_semester current))
           (updated_number b ''second_semester'' (second_semester current)) avg i"
proof -
  note inv = put_200_inv [OF assms]
  then obtain current rest where c: "select_by_id db i = current # rest"
    by (cases "select_by_id db i") auto
  from inv c have p: "put_participant E db i b
      = put_existing E db i b current [Connect, SelectById i]"
    by (intro put_participant_existing) simp_all
  from inv have v: "validateParticipantData b = None" by simp
  show ?thesis
    using assms c v
    unfolding p put_existing_valid [OF v] select_update_rows
    by (auto simp: finish_def json_def update_catch_status split: if_splits)
qed

lemma validated_name:
  assumes "validateParticipantData b = None"
  shows "(field b ''full_name'' = JUndefined \<longrightarrow> updated_name b current = full_name current)
    \<and> (field b ''full_name'' \<noteq> JUndefined \<longrightarrow>
         (\<exists>nm. field b ''full_name'' = JStr nm \<and> updated_name b current = trim nm))"
  using validate_None_fields [OF assms] name_ok [of "field b ''full_name''"]
  by (auto simp: updated_name_def)

lemma validated_age:
  assumes "validateParticipantData b = None"
  shows "(field b ''age'' = JUndefined \<longrightarrow> updated_number b ''age'' cur = cur)
    \<and> (field b ''age'' \<noteq> JUndefined \<longrightarrow> field b ''age'' = JNum (updated_number b ''age'' cur))"
  using validate_None_fields [OF assms] age_ok [of "field b ''age''"]
  by (auto simp: updated_number_def)

lemma validated_first:
  assumes "validateParticipantData b = None"
  shows "(field b ''first_semester'' = JUndefined \<longrightarrow>
           updated_number b ''first_semester'' cur = cur)
    \<and> (field b ''first_semester'' \<noteq> JUndefined \<longrightarrow>
         field b ''first_semester'' = JNum (updated_number b ''first_semester'' cur))"
  using validate_None_fields [OF assms]
    semester_ok [of msg_first_semester "field b ''first_semester''"]
  by (auto simp: updated_number_def)

lemma validated_second:
  assumes "validateParticipantData b = None"
  shows "(field b ''second_semester'' = JUndefined \<longrightarrow>
           updated_number b ''second_semester'' cur = cur)
    \<and> (field b ''second_semester'' \<noteq> JUndefined \<longrightarrow>
         field b ''second_semester'' = JNum (updated_number b ''second_semester'' cur))"
  using validate_None_fields [OF assms]
    semester_ok [of msg_second_semester "field b ''second_semester''"]
  by (auto simp: updated_number_def)

lemma put_succeeds:
  assumes "uuid_accepted i" and "validateParticipantData b = None"
    and "\<forall>k. fault E k = None" and "select_by_id db i = current # rest"
    and "name_check_runs E b current \<longrightarrow>
           select_id_by_name_except E db (updated_name b current) i = []"
    and "updated_number b ''first_semester'' (first_semester current) \<noteq> NaN"
    and "updated_number b ''second_semester'' (second_semester current) \<noteq> NaN"
  shows "status (reply (put_participant E db i b)) = 200
    \<and> trace (put_participant E db i b)
       = [Connect, SelectById i]
         @ (if name_check_runs E b current
            then [SelectIdByNameExcept (updated_name b current) i] else [])
         @ [UpdateParticipant (updated_name b current)
              (JNum (updated_number b ''age'' (age current)))
              (JNum (updated_number b ''first_semester'' (first_semester current)))
              (JNum (updated_number b ''second_semester'' (second_semester current)))
              (js_average (updated_number b ''first_semester'' (first_semester current))
                 (updated_number b ''second_semester'' (second_semester current))) i]"
proof -
  from assms(1,2,3,4) have p: "put_participant E db i b
      = put_existing E db i b current [Connect, SelectById i]"
    by (intro put_participant_existing) simp_all
  show ?thesis
    using assms(3,4,5,6,7)
    unfolding p put_existing_valid [OF assms(2)] select_update_rows
    by (auto simp: finish_def json_def)
qed

lemma put_existing_unchecked:
  fixes E :: env and db :: "participant list" and i :: jsstring and b :: req_body
    and current :: participant and tr :: "dbop list"
  assumes "validateParticipantData b = None" and "\<not> name_check_runs E b current"
  defines "n \<equiv> updated_name b current"
    and "a \<equiv> updated_number b ''age'' (age current)"
    and "f \<equiv> updated_number b ''first_semester'' (first_semester current)"
    and "s \<equiv> updated_number b ''second_semester'' (second_semester current)"
  defines "w \<equiv> UpdateParticipant n (JNum a) (JNum f) (JNum s) (js_average f s) i"
    and "r \<equiv> current\<lparr>full_name := n, age := a, first_semester := f, second_semester := s,
                 final_average := js_average f s\<rparr>"
  assumes "select_by_id db i = current # rest"
  shows "put_existing E db i b current tr =
     (if f = NaN \<or> s = NaN then finish (json 400 (ErrorJson msg_grades)) db tr
      else case fault E (length tr) of
             Some e \<Rightarrow> finish (update_catch e) db (tr @ [w])
           | None \<Rightarrow> finish (json 200 (ParticipantJson r))
                      (update_rows db n a f s (js_average f s) i) (tr @ [w]))"
  unfolding put_existing_valid [OF assms(1)] select_update_rows
  using assms(2) by (auto simp: assms(3-9))

text \<open>
  Claim C6 as stated fails for full_name: the stored name is the supplied one
  trimmed. An update of Maria Santos with the name Ana padded with spaces is
  answered with 200 and stores Ana, not the supplied string.
\<close>

theorem update_trims_supplied_name:
  "status (reply (put_participant example_env [maria] valid_id (rename_body (js '' Ana ''))))
     = 200
   \<and> map full_name (store (put_participant example_env [maria] valid_id
         (rename_body (js '' Ana '')))) = [js ''Ana'']
   \<and> js ''Ana'' \<noteq> js '' Ana ''"
proof -
  have v: "validateParticipantData (rename_body (js '' Ana '')) = None"
    by (simp add: validate_eval rename_body_def)
  have u: "uuid_in valid_id = valid_id" by (simp add: uuid_in_def valid_id_def js_def)
  have t: "trim (js '' Ana '') = js ''Ana''"
    by (simp add: trim_def is_white_space_def js_def)
  have n: "js '' Ana '' \<noteq> []" "js ''Ana'' \<noteq> js '' Ana ''" by (simp_all add: js_def)
  have l: "ascii_lower (js ''Ana'') \<noteq> ascii_lower (js ''Maria Santos'')"
    by (simp add: ascii_lower_def js_def)
  show ?thesis
    using v valid_id_accepted n l
    by (simp add: put_participant_def validateUUID_None [THEN iffD2] example_env_def
        select_by_id_def u maria_def put_existing_def field_def rename_body_def t
        select_id_by_name_except_def put_write_def calculateFinalAverage_Num update_rows_def
        finish_def json_def Let_def)
qed

text \<open>
  Claim C6, amended. After a PUT answered with 200 the row of the id has the same
  id; each of age, first_semester and second_semester that is absent from the body
  keeps the value of the current row and each that is present has the supplied
  value; full_name keeps the current value when absent and is the supplied name
  with surrounding white space removed when present. The rows of other ids and the
  ids of all rows are unchanged. An update with no name change, that is with no
  full_name in the body or with one whose trimmed value is the current full_name,
  with an accepted id of an existing row, a body that passes validation, none of its
  three storage calls rejected and no NaN score, is answered with 200, and the row
  returned and stored has the id and the full_name of the row before.
\<close>

theorem update_frame:
  "(status (reply (put_participant E db i b)) = 200 \<longrightarrow>
      (\<exists>current rest r. select_by_id db i = current # rest
         \<and> reply (put_participant E db i b) = json 200 (ParticipantJson r)
         \<and> id_col r = id_col current
         \<and> (field b ''full_name'' = JUndefined \<longrightarrow> full_name r = full_name current)
         \<and> (field b ''full_name'' \<noteq> JUndefined \<longrightarrow>
              (\<exists>nm. field b ''full_name'' = JStr nm \<and> full_name r = trim nm))
         \<and> (field b ''age'' = JUndefined \<longrightarrow> age r = age current)
         \<and> (field b ''age'' \<noteq> JUndefined \<longrightarrow> field b ''age'' = JNum (age r))
         \<and> (field b ''first_semester'' = JUndefined \<longrightarrow>
              first_semester r = first_semester current)
         \<and> (field b ''first_semester'' \<noteq> JUndefined \<longrightarrow>
              field b ''first_semester'' = JNum (first_semester r))
         \<and> (field b ''second_semester'' = JUndefined \<longrightarrow>
              second_semester r = second_semester current)
         \<and> (field b ''second_semester'' \<noteq> JUndefined \<longrightarrow>
              field b ''second_semester'' = JNum (second_semester r))
         \<and> select_by_id (store (put_participant E db i b)) i \<noteq> []
         \<and> hd (select_by_id (store (put_participant E db i b)) i) = r
         \<and> filter (\<lambda>x. id_col x \<noteq> uuid_in i) (store (put_participant E db i b))
            = filter (\<lambda>x. id_col x \<noteq> uuid_in i) db
         \<and> map id_col (store (put_participant E db i b)) = map id_col db))
   \<and> (uuid_accepted i \<and> validateParticipantData b = None
       \<and> fault E 0 = None \<and> fault E 1 = None \<and> fault E 2 = None
       \<and> select_by_id db i = current # rest
       \<and> (field b ''full_name'' = JUndefined
           \<or> (\<exists>nm. field b ''full_name'' = JStr nm \<and> trim nm = full_name current))
       \<and> updated_number b ''first_semester'' (first_semester current) \<noteq> NaN
       \<and> updated_number b ''second_semester'' (second_semester current) \<noteq> NaN
      \<longrightarrow> status (reply (put_participant E db i b)) = 200
          \<and> (\<exists>r. reply (put_participant E db i b) = json 200 (ParticipantJson r)
                \<and> id_col r = id_col current \<and> full_name r = full_name current
                \<and> hd (select_by_id (store (put_participant E db i b)) i) = r))"
proof (intro conjI impI)
  assume "status (reply (put_participant E db i b)) = 200"
  from put_200_shape [OF this] obtain cur rest' avg where
    c: "select_by_id db i = cur # rest'" and v: "validateParticipantData b = None"
    and r: "reply (put_participant E db i b) = json 200 (ParticipantJson
         (cur\<lparr>full_name := updated_name b cur,
            age := updated_number b ''age'' (age cur),
            first_semester := updated_number b ''first_semester'' (first_semester cur),
            second_semester := updated_number b ''second_semester'' (second_semester cur),
            final_average := avg\<rparr>))"
    and s: "store (put_participant E db i b)
       = update_rows db (updated_name b cur) (updated_number b ''age'' (age cur))
           (updated_number b ''first_semester'' (first_semester cur))
           (updated_number b ''second_semester'' (second_semester cur)) avg i"
    by blast
  show "\<exists>current rest r. select_by_id db i = current # rest
         \<and> reply (put_participant E db i b) = json 200 (ParticipantJson r)
         \<and> id_col r = id_col current
         \<and> (field b ''full_name'' = JUndefined \<longrightarrow> full_name r = full_name current)
         \<and> (field b ''full_name'' \<noteq> JUndefined \<longrightarrow>
              (\<exists>nm. field b ''full_name'' = JStr nm \<and> full_name r = trim nm))
         \<and> (field b ''age'' = JUndefined \<longrightarrow> age r = age current)
         \<and> (field b ''age'' \<noteq> JUndefined \<longrightarrow> field b ''age'' = JNum (age r))
         \<and> (field b ''first_semester'' = JUndefined \<longrightarrow>
              first_semester r = first_semester current)
         \<and> (field b ''first_semester'' \<noteq> JUndefined \<longrightarrow>
              field b ''first_semester'' = JNum (first_semester r))
         \<and> (field b ''second_semester'' = JUndefined \<longrightarrow>
              second_semester r = second_semester current)
         \<and> (field b ''second_semester'' \<noteq> JUndefined \<longrightarrow>
              field b ''second_semester'' = JNum (second_semester r))
         \<and> select_by_id (store (put_participant E db i b)) i \<noteq> []
         \<and> hd (select_by_id (store (put_participant E db i b)) i) = r
         \<and> filter (\<lambda>x. id_col x \<noteq> uuid_in i) (store (put_participant E db i b))
            = filter (\<lambda>x. id_col x \<noteq> uuid_in i) db
         \<and> map id_col (store (put_participant E db i b)) = map id_col db"
    using c r validated_name [OF v, of cur] validated_age [OF v, of "age cur"]
      validated_first [OF v, of "first_semester cur"]
      validated_second [OF v, of "second_semester cur"]
    by (intro exI [of _ cur] exI [of _ rest']
        exI [of _ "cur\<lparr>full_name := updated_name b cur,
            age := updated_number b ''age'' (age cur),
            first_semester := updated_number b ''first_semester'' (first_semester cur),
            second_semester := updated_number b ''second_semester'' (second_semester cur),
            final_average := avg\<rparr>"])
      (simp add: s select_update_rows update_rows_frame update_rows_ids)
next
  assume a: "uuid_accepted i \<and> validateParticipantData b = None
       \<and> fault E 0 = None \<and> fault E 1 = None \<and> fault E 2 = None
       \<and> select_by_id db i = current # rest
       \<and> (field b ''full_name'' = JUndefined
           \<or> (\<exists>nm. field b ''full_name'' = JStr nm \<and> trim nm = full_name current))
       \<and> updated_number b ''first_semester'' (first_semester current) \<noteq> NaN
       \<and> updated_number b ''second_semester'' (second_semester current) \<noteq> NaN"
  then have v: "validateParticipantData b = None"
    and c: "select_by_id db i = current # rest" by simp_all
  from a have n: "updated_name b current = full_name current"
    by (auto simp: updated_name_def)
  then have k: "\<not> name_check_runs E b current" by (simp add: name_check_runs_def)
  from a have p: "put_participant E db i b
      = put_existing E db i b current [Connect, SelectById i]"
    by (intro put_participant_existing) simp_all
  have l: "length [Connect, SelectById i] = 2" by simp
  note e = put_existing_unchecked [OF v k c, of "[Connect, SelectById i]", folded p,
      unfolded n l]
  from a show "status (reply (put_participant E db i b)) = 200"
    unfolding e by (simp add: finish_def json_def)
  from a show "\<exists>r. reply (put_participant E db i b) = json 200 (ParticipantJson r)
      \<and> id_col r = id_col current \<and> full_name r = full_name current
      \<and> hd (select_by_id (store (put_participant E db i b)) i) = r"
    unfolding e by (simp add: finish_def select_update_rows c)
qed

text \<open>
  The update of the age of Maria Santos alone: 200, and the other fields are those
  of the row before. The update that supplies her own name, padded: 200.
\<close>

theorem update_frame_witness:
  "uuid_accepted valid_id \<and> validateParticipantData age_body = None
   \<and> fault example_env 0 = None \<and> fault example_env 1 = None \<and> fault example_env 2 = None
   \<and> select_by_id [maria] valid_id = [maria]
   \<and> field age_body ''full_name'' = JUndefined
   \<and> status (reply (put_participant example_env [maria] valid_id age_body)) = 200
   \<and> (\<exists>r. reply (put_participant example_env [maria] valid_id age_body)
            = json 200 (ParticipantJson r)
        \<and> id_col r = id_col maria \<and> full_name r = full_name maria \<and> age r = Num 23
        \<and> first_semester r = first_semester maria
        \<and> second_semester r = second_semester maria)
   \<and> validateParticipantData (rename_body (js '' Maria Santos '')) = None
   \<and> field (rename_body (js '' Maria Santos '')) ''full_name'' = JStr (js '' Maria Santos '')
   \<and> trim (js '' Maria Santos '') = full_name maria
   \<and> status (reply (put_participant example_env [maria] valid_id
         (rename_body (js '' Maria Santos '')))) = 200"
proof -
  have v: "validateParticipantData age_body = None"
    "validateParticipantData (rename_body (js '' Maria Santos '')) = None"
    by (simp_all add: validate_eval age_body_def rename_body_def)
  have u: "uuid_in valid_id = valid_id" by (simp add: uuid_in_def valid_id_def js_def)
  have c: "select_by_id [maria] valid_id = [maria]"
    by (simp add: select_by_id_def u maria_def)
  have f: "fault example_env 0 = None" "fault example_env 1 = None"
    "fault example_env 2 = None"
    by (simp_all add: example_env_def)
  have b: "field age_body ''full_name'' = JUndefined"
    "field age_body ''age'' = JNum (Num 23)"
    "field age_body ''first_semester'' = JUndefined"
    "field age_body ''second_semester'' = JUndefined"
    by (simp_all add: field_def age_body_def)
  have n: "updated_number age_body ''first_semester'' (first_semester maria) \<noteq> NaN"
    "updated_number age_body ''second_semester'' (second_semester maria) \<noteq> NaN"
    by (simp_all add: updated_number_def b maria_def)
  have d: "field (rename_body (js '' Maria Santos '')) ''full_name''
      = JStr (js '' Maria Santos '')"
    by (simp add: field_def rename_body_def)
  have t: "trim (js '' Maria Santos '') = full_name maria"
    by (simp add: trim_def is_white_space_def js_def maria_def)
  have m: "updated_number (rename_body (js '' Maria Santos '')) ''first_semester''
       (first_semester maria) \<noteq> NaN"
    "updated_number (rename_body (js '' Maria Santos '')) ''second_semester''
       (second_semester maria) \<noteq> NaN"
    by (simp_all add: updated_number_def field_def rename_body_def maria_def)
  note t1 = update_frame [of example_env "[maria]" valid_id age_body maria "[]"]
  from t1 valid_id_accepted v(1) f c b(1) n
  have s: "status (reply (put_participant example_env [maria] valid_id age_body)) = 200"
    by blast
  with t1 c b have x: "\<exists>r. reply (put_participant example_env [maria] valid_id age_body)
            = json 200 (ParticipantJson r)
        \<and> id_col r = id_col maria \<and> full_name r = full_name maria \<and> age r = Num 23
        \<and> first_semester r = first_semester maria
        \<and> second_semester r = second_semester maria"
    by auto
  note t2 = update_frame [of example_env "[maria]" valid_id
      "rename_body (js '' Maria Santos '')" maria "[]"]
  from t2 valid_id_accepted v(2) f c d t m
  have y: "status (reply (put_participant example_env [maria] valid_id
         (rename_body (js '' Maria Santos '')))) = 200"
    by blast
  from valid_id_accepted v f c b(1) s x d t y show ?thesis by blast
qed

lemma put_existing_trace_check:
  assumes "validateParticipantData b = None"
  shows "(\<exists>n j. SelectIdByNameExcept n j \<in> set (trace (put_existing E db i b current
             [Connect, SelectById i'])))
    \<longleftrightarrow> name_check_runs E b current"
  unfolding put_existing_valid [OF assms]
  by (auto simp: finish_def split: list.splits)

lemma put_existing_checked:
  assumes "validateParticipantData b = None" and "name_check_runs E b current"
  shows "take (Suc (length tr)) (trace (put_existing E db i b current tr))
      = tr @ [SelectIdByNameExcept (updated_name b current) i]
    \<and> (fault E (length tr) = None
        \<and> select_id_by_name_except E db (updated_name b current) i \<noteq> [] \<longrightarrow>
          put_existing E db i b current tr
            = finish (json 409 (ErrorJson msg_other_has_name)) db
                (tr @ [SelectIdByNameExcept (updated_name b current) i]))"
  unfolding put_existing_valid [OF assms(1)]
  using assms(2) by (auto simp: finish_def split: list.splits)

lemma js_average_8_6: "js_average (Num 8) (Num 6) = Num 7"
proof -
  have 1: "js_add (Num 8) (Num 6) = Num 14" by (simp add: to_double_numeral)
  have 2: "js_div (Num 14) (Num 2) = Num 7" by (simp add: to_double_numeral)
  have 3: "js_mul (Num 7) (Num 100) = Num 700" by (simp add: to_double_numeral)
  have "\<lfloor>700 + 1 / 2 :: rat\<rfloor> = 700" by (rule floor_unique) simp_all
  then have 4: "Math_round (Num 700) = Num 700" by simp
  have 5: "js_div (Num 700) (Num 100) = Num 7" by (simp add: to_double_numeral)
  show ?thesis unfolding js_average_def 1 2 3 4 5 ..
qed

text \<open>
  Claim C9 as stated fails: a rename that differs from the current name only in
  letter case is not always accepted. The name query is skipped, so a second row
  that already has the new name is found by the store alone: with Maria Santos and
  MARIA SANTOS in the table, the rename of the first to MARIA SANTOS sends the
  UPDATE without a name query, the store rejects it with 23505, and the answer is
  409 with the table unchanged.
\<close>

theorem case_rename_rejected_by_store:
  "uuid_accepted valid_id
   \<and> validateParticipantData (rename_body (js ''MARIA SANTOS'')) = None
   \<and> select_by_id [maria, maria_upper] valid_id = [maria]
   \<and> toLowerCase unique_env (trim (js ''MARIA SANTOS''))
       = toLowerCase unique_env (full_name maria)
   \<and> full_name maria_upper = js ''MARIA SANTOS'' \<and> id_col maria_upper \<noteq> id_col maria
   \<and> fault unique_env 2 = Some (Some ''23505'')
   \<and> trace (put_participant unique_env [maria, maria_upper] valid_id
         (rename_body (js ''MARIA SANTOS'')))
       = [Connect, SelectById valid_id,
          UpdateParticipant (js ''MARIA SANTOS'') (JNum (Num 22)) (JNum (Num 8))
            (JNum (Num 6)) (Num 7) valid_id]
   \<and> reply (put_participant unique_env [maria, maria_upper] valid_id
         (rename_body (js ''MARIA SANTOS'')))
       = json 409 (ErrorJson msg_name_exists_other)
   \<and> store (put_participant unique_env [maria, maria_upper] valid_id
         (rename_body (js ''MARIA SANTOS''))) = [maria, maria_upper]"
proof -
  have v: "validateParticipantData (rename_body (js ''MARIA SANTOS'')) = None"
    by (simp add: validate_eval rename_body_def)
  have u: "uuid_in valid_id = valid_id" by (simp add: uuid_in_def valid_id_def js_def)
  have o: "full_name maria_upper = js ''MARIA SANTOS''" "id_col maria_upper \<noteq> id_col maria"
    by (simp_all add: maria_upper_def maria_def valid_id_def js_def)
  then have c: "select_by_id [maria, maria_upper] valid_id = [maria]"
    by (simp add: select_by_id_def u) (simp add: maria_def)
  have t: "trim (js ''MARIA SANTOS'') = js ''MARIA SANTOS''"
    by (simp add: trim_def is_white_space_def js_def)
  have l: "toLowerCase unique_env (js ''MARIA SANTOS'')
      = toLowerCase unique_env (full_name maria)"
    by (simp add: unique_env_def example_env_def ascii_lower_def maria_def js_def)
  have f: "fault unique_env 0 = None" "fault unique_env (Suc 0) = None"
    "fault unique_env 2 = Some (Some ''23505'')"
    by (simp_all add: unique_env_def example_env_def)
  note a = js_average_8_6
  have m: "age maria = Num 22" "first_semester maria = Num 8" "second_semester maria = Num 6"
    by (simp_all add: maria_def)
  have b: "field (rename_body (js ''MARIA SANTOS'')) ''full_name'' = JStr (js ''MARIA SANTOS'')"
    by (simp add: field_def rename_body_def)
  have n: "updated_name (rename_body (js ''MARIA SANTOS'')) maria = js ''MARIA SANTOS''"
    "updated_number (rename_body (js ''MARIA SANTOS'')) ''age'' (age maria) = Num 22"
    "updated_number (rename_body (js ''MARIA SANTOS'')) ''first_semester''
       (first_semester maria) = Num 8"
    "updated_number (rename_body (js ''MARIA SANTOS'')) ''second_semester''
       (second_semester maria) = Num 6"
    by (simp_all add: updated_name_def updated_number_def field_def rename_body_def t m)
  have k: "\<not> name_check_runs unique_env (rename_body (js ''MARIA SANTOS'')) maria"
    by (simp add: name_check_runs_def n l)
  have g: "length [Connect, SelectById valid_id] = 2" by simp
  have p: "put_participant unique_env [maria, maria_upper] valid_id
         (rename_body (js ''MARIA SANTOS''))
      = finish (json 409 (ErrorJson msg_name_exists_other)) [maria, maria_upper]
          [Connect, SelectById valid_id,
           UpdateParticipant (js ''MARIA SANTOS'') (JNum (Num 22)) (JNum (Num 8))
             (JNum (Num 6)) (Num 7) valid_id]"
    unfolding put_participant_existing [OF valid_id_accepted v f(1) f(2) [unfolded One_nat_def [symmetric]] c]
      put_existing_unchecked [OF v k c] n a g
    by (simp add: f(3) update_catch_def)
  from valid_id_accepted v c l o f(3) show ?thesis by (simp add: t p finish_def)
qed

text \<open>
  Claim C9, amended. Take a PUT with an accepted id of an existing row and a body
  that passes validation, whose connection and lookup of the id are not rejected.
  The name query against the other rows is sent if and only if the body has a
  full_name that, trimmed and in lower case, differs from the current full_name in
  lower case. When the two are equal no name query is sent: with a NaN score the
  answer is 400 after the lookup; otherwise the third storage call is the UPDATE
  with the trimmed name, and it is the last. If the store accepts it the answer is
  200 with the row of the id, which has the trimmed name, stored; if the store
  rejects it the table is unchanged and the answer is that of the catch clause,
  409 for SQLSTATE 23505. When the two differ the third storage call is the name
  query, and if it is not rejected and finds a row the answer is 409 with the table
  unchanged and no further call. When the body has no full_name no name query is
  sent.
\<close>

theorem same_name_skips_check:
  assumes "uuid_accepted i" and "validateParticipantData b = None"
    and "fault E 0 = None" and "fault E 1 = None"
    and "select_by_id db i = current # rest"
  shows "(let P = put_participant E db i b;
              A = updated_number b ''age'' (age current);
              F = updated_number b ''first_semester'' (first_semester current);
              S = updated_number b ''second_semester'' (second_semester current)
          in ((\<exists>n j. SelectIdByNameExcept n j \<in> set (trace P))
              \<longleftrightarrow> (\<exists>nm. field b ''full_name'' = JStr nm
                     \<and> toLowerCase E (trim nm) \<noteq> toLowerCase E (full_name current)))
           \<and> (field b ''full_name'' = JStr nm
               \<and> toLowerCase E (trim nm) = toLowerCase E (full_name current) \<longrightarrow>
                (\<forall>n j. SelectIdByNameExcept n j \<notin> set (trace P))
                \<and> (F = NaN \<or> S = NaN \<longrightarrow>
                     reply P = json 400 (ErrorJson msg_grades) \<and> store P = db
                     \<and> trace P = [Connect, SelectById i])
                \<and> (F \<noteq> NaN \<and> S \<noteq> NaN \<longrightarrow>
                     trace P = [Connect, SelectById i,
                                UpdateParticipant (trim nm) (JNum A) (JNum F) (JNum S)
                                  (js_average F S) i]
                     \<and> (fault E 2 = None \<longrightarrow>
                          store P = update_rows db (trim nm) A F S (js_average F S) i
                          \<and> (\<exists>r. reply P = json 200 (ParticipantJson r)
                                \<and> full_name r = trim nm \<and> id_col r = id_col current
                                \<and> select_by_id (store P) i \<noteq> []
                                \<and> hd (select_by_id (store P) i) = r))
                     \<and> (\<forall>e. fault E 2 = Some e \<longrightarrow>
                          reply P = update_catch e \<and> status (reply P) \<noteq> 200 \<and> store P = db)
                     \<and> (fault E 2 = Some (Some ''23505'') \<longrightarrow>
                          reply P = json 409 (ErrorJson msg_name_exists_other))))
           \<and> (field b ''full_name'' = JStr nm
               \<and> toLowerCase E (trim nm) \<noteq> toLowerCase E (full_name current) \<longrightarrow>
                take 3 (trace P) = [Connect, SelectById i, SelectIdByNameExcept (trim nm) i]
                \<and> (fault E 2 = None \<and> select_id_by_name_except E db (trim nm) i \<noteq> [] \<longrightarrow>
                     reply P = json 409 (ErrorJson msg_other_has_name) \<and> store P = db
                     \<and> trace P = [Connect, SelectById i, SelectIdByNameExcept (trim nm) i]))
           \<and> (field b ''full_name'' = JUndefined \<longrightarrow>
                (\<forall>n j. SelectIdByNameExcept n j \<notin> set (trace P))))"
proof -
  define P where "P = put_participant E db i b"
  define A where "A = updated_number b ''age'' (age current)"
  define F where "F = updated_number b ''first_semester'' (first_semester current)"
  define S where "S = updated_number b ''second_semester'' (second_semester current)"
  from assms have p: "P = put_existing E db i b current [Connect, SelectById i]"
    unfolding P_def by (intro put_participant_existing) simp_all
  note k = put_existing_trace_check [OF assms(2), of E db i current i, folded p]
  have c: "name_check_runs E b current
      \<longleftrightarrow> (\<exists>nm. field b ''full_name'' = JStr nm
             \<and> toLowerCase E (trim nm) \<noteq> toLowerCase E (full_name current))"
    using validated_name [OF assms(2), of current]
    by (auto simp: name_check_runs_def)
  have 1: "(\<exists>n j. SelectIdByNameExcept n j \<in> set (trace P))
      \<longleftrightarrow> (\<exists>nm. field b ''full_name'' = JStr nm
             \<and> toLowerCase E (trim nm) \<noteq> toLowerCase E (full_name current))"
    using k c by simp
  have 2: "(\<forall>n j. SelectIdByNameExcept n j \<notin> set (trace P))
        \<and> (F = NaN \<or> S = NaN \<longrightarrow>
             reply P = json 400 (ErrorJson msg_grades) \<and> store P = db
             \<and> trace P = [Connect, SelectById i])
        \<and> (F \<noteq> NaN \<and> S \<noteq> NaN \<longrightarrow>
             trace P = [Connect, SelectById i,
                        UpdateParticipant (trim nm) (JNum A) (JNum F) (JNum S)
                          (js_average F S) i]
             \<and> (fault E 2 = None \<longrightarrow>
                  store P = update_rows db (trim nm) A F S (js_average F S) i
                  \<and> (\<exists>r. reply P = json 200 (ParticipantJson r)
                        \<and> full_name r = trim nm \<and> id_col r = id_col current
                        \<and> select_by_id (store P) i \<noteq> []
                        \<and> hd (select_by_id (store P) i) = r))
             \<and> (\<forall>e. fault E 2 = Some e \<longrightarrow>
                  reply P = update_catch e \<and> status (reply P) \<noteq> 200 \<and> store P = db)
             \<and> (fault E 2 = Some (Some ''23505'') \<longrightarrow>
                  reply P = json 409 (ErrorJson msg_name_exists_other)))"
    if a: "field b ''full_name'' = JStr nm
        \<and> toLowerCase E (trim nm) = toLowerCase E (full_name current)"
  proof -
    from a have n: "updated_name b current = trim nm" by (simp add: updated_name_def)
    from a have r: "\<not> name_check_runs E b current" by (simp add: c)
    have l: "length [Connect, SelectById i] = 2" by simp
    note e = put_existing_unchecked [OF assms(2) r assms(5), of "[Connect, SelectById i]",
        folded p A_def F_def S_def, unfolded n l]
    from r k have x: "\<forall>n j. SelectIdByNameExcept n j \<notin> set (trace P)" by blast
    have y: "F = NaN \<or> S = NaN \<longrightarrow>
             reply P = json 400 (ErrorJson msg_grades) \<and> store P = db
             \<and> trace P = [Connect, SelectById i]"
      unfolding e by (auto simp: finish_def)
    have z: "F \<noteq> NaN \<and> S \<noteq> NaN \<longrightarrow>
             trace P = [Connect, SelectById i,
                        UpdateParticipant (trim nm) (JNum A) (JNum F) (JNum S)
                          (js_average F S) i]
             \<and> (fault E 2 = None \<longrightarrow>
                  store P = update_rows db (trim nm) A F S (js_average F S) i
                  \<and> (\<exists>r. reply P = json 200 (ParticipantJson r)
                        \<and> full_name r = trim nm \<and> id_col r = id_col current
                        \<and> select_by_id (store P) i \<noteq> []
                        \<and> hd (select_by_id (store P) i) = r))
             \<and> (\<forall>e. fault E 2 = Some e \<longrightarrow>
                  reply P = update_catch e \<and> status (reply P) \<noteq> 200 \<and> store P = db)
             \<and> (fault E 2 = Some (Some ''23505'') \<longrightarrow>
                  reply P = json 409 (ErrorJson msg_name_exists_other))"
      unfolding e
      by (auto simp: finish_def select_update_rows assms(5) update_catch_def
          internal_error_def json_def split: option.splits)
    from x y z show ?thesis by blast
  qed
  have 3: "take 3 (trace P) = [Connect, SelectById i, SelectIdByNameExcept (trim nm) i]
        \<and> (fault E 2 = None \<and> select_id_by_name_except E db (trim nm) i \<noteq> [] \<longrightarrow>
             reply P = json 409 (ErrorJson msg_other_has_name) \<and> store P = db
             \<and> trace P = [Connect, SelectById i, SelectIdByNameExcept (trim nm) i])"
    if a: "field b ''full_name'' = JStr nm
        \<and> toLowerCase E (trim nm) \<noteq> toLowerCase E (full_name current)"
  proof -
    from a have n: "updated_name b current = trim nm" by (simp add: updated_name_def)
    from a have r: "name_check_runs E b current" using c by blast
    have l: "length [Connect, SelectById i] = 2" "Suc 2 = 3" by simp_all
    from put_existing_checked [OF assms(2) r, of "[Connect, SelectById i]" db i,
        folded p, unfolded n l]
    show ?thesis by (auto simp: finish_def)
  qed
  have 4: "\<forall>n j. SelectIdByNameExcept n j \<notin> set (trace P)"
    if "field b ''full_name'' = JUndefined"
    using that k by (simp add: name_check_runs_def)
  from 1 2 3 4 show ?thesis
    unfolding Let_def P_def [symmetric] A_def [symmetric] F_def [symmetric] S_def [symmetric]
    by blast
qed


text \<open>
  A rename of Maria Santos to capitals with padding is accepted without the name
  query and stored; a rename to Ana sends the name query; with MARIA SANTOS in a
  second row and the UPDATE rejected by the store, the rename to capitals is
  answered with 409.
\<close>

theorem same_name_skips_check_witness:
  "uuid_accepted valid_id
   \<and> validateParticipantData (rename_body (js '' MARIA SANTOS '')) = None
   \<and> fault example_env 0 = None \<and> fault example_env 1 = None \<and> fault example_env 2 = None
   \<and> select_by_id [maria] valid_id = [maria]
   \<and> field (rename_body (js '' MARIA SANTOS '')) ''full_name'' = JStr (js '' MARIA SANTOS '')
   \<and> toLowerCase example_env (trim (js '' MARIA SANTOS ''))
       = toLowerCase example_env (full_name maria)
   \<and> trace (put_participant example_env [maria] valid_id (rename_body (js '' MARIA SANTOS '')))
       = [Connect, SelectById valid_id,
          UpdateParticipant (js ''MARIA SANTOS'') (JNum (Num 22)) (JNum (Num 8))
            (JNum (Num 6)) (Num 7) valid_id]
   \<and> map full_name (store (put_participant example_env [maria] valid_id
         (rename_body (js '' MARIA SANTOS '')))) = [js ''MARIA SANTOS'']
   \<and> (\<exists>r. reply (put_participant example_env [maria] valid_id
               (rename_body (js '' MARIA SANTOS ''))) = json 200 (ParticipantJson r)
        \<and> full_name r = js ''MARIA SANTOS'')
   \<and> validateParticipantData (rename_body (js ''Ana'')) = None
   \<and> toLowerCase example_env (trim (js ''Ana'')) \<noteq> toLowerCase example_env (full_name maria)
   \<and> take 3 (trace (put_participant example_env [maria] valid_id (rename_body (js ''Ana''))))
       = [Connect, SelectById valid_id, SelectIdByNameExcept (js ''Ana'') valid_id]
   \<and> select_by_id [maria, maria_upper] valid_id = [maria]
   \<and> fault unique_env 0 = None \<and> fault unique_env 1 = None
   \<and> fault unique_env 2 = Some (Some ''23505'')
   \<and> toLowerCase unique_env (trim (js '' MARIA SANTOS ''))
       = toLowerCase unique_env (full_name maria)
   \<and> reply (put_participant unique_env [maria, maria_upper] valid_id
         (rename_body (js '' MARIA SANTOS ''))) = json 409 (ErrorJson msg_name_exists_other)
   \<and> store (put_participant unique_env [maria, maria_upper] valid_id
         (rename_body (js '' MARIA SANTOS ''))) = [maria, maria_upper]"
proof -
  have v: "validateParticipantData (rename_body (js '' MARIA SANTOS '')) = None"
    "validateParticipantData (rename_body (js ''Ana'')) = None"
    by (simp_all add: validate_eval rename_body_def)
  have u: "uuid_in valid_id = valid_id" by (simp add: uuid_in_def valid_id_def js_def)
  have c: "select_by_id [maria] valid_id = [maria]"
    by (simp add: select_by_id_def u maria_def)
  have f: "fault example_env 0 = None" "fault example_env 1 = None"
    "fault example_env 2 = None"
    by (simp_all add: example_env_def)
  have t: "trim (js '' MARIA SANTOS '') = js ''MARIA SANTOS''" "trim (js ''Ana'') = js ''Ana''"
    by (simp_all add: trim_def is_white_space_def js_def)
  have l: "toLowerCase example_env (js ''MARIA SANTOS'')
      = toLowerCase example_env (full_name maria)"
    "toLowerCase example_env (js ''Ana'') \<noteq> toLowerCase example_env (full_name maria)"
    by (simp_all add: example_env_def ascii_lower_def maria_def js_def)
  have b: "\<And>nm. field (rename_body nm) ''full_name'' = JStr nm"
    by (simp add: field_def rename_body_def)
  have n: "\<And>nm. updated_number (rename_body nm) ''age'' (age maria) = Num 22"
    "\<And>nm. updated_number (rename_body nm) ''first_semester'' (first_semester maria) = Num 8"
    "\<And>nm. updated_number (rename_body nm) ''second_semester'' (second_semester maria) = Num 6"
    by (simp_all add: updated_number_def field_def rename_body_def maria_def)
  note a = js_average_8_6
  have w: "map full_name (update_rows [maria] (js ''MARIA SANTOS'') (Num 22) (Num 8) (Num 6)
      (Num 7) valid_id) = [js ''MARIA SANTOS'']"
    by (simp add: update_rows_def u maria_def)
  have nn: "Num 8 \<noteq> NaN" "Num 6 \<noteq> NaN" by simp_all
  note x = same_name_skips_check [OF valid_id_accepted v(1) f(1,2) c,
      of "js '' MARIA SANTOS ''", unfolded Let_def n a t(1)]
  from x b l(1) f(3) nn
  have tr: "trace (put_participant example_env [maria] valid_id
        (rename_body (js '' MARIA SANTOS '')))
       = [Connect, SelectById valid_id,
          UpdateParticipant (js ''MARIA SANTOS'') (JNum (Num 22)) (JNum (Num 8))
            (JNum (Num 6)) (Num 7) valid_id]"
    and st: "store (put_participant example_env [maria] valid_id
        (rename_body (js '' MARIA SANTOS '')))
       = update_rows [maria] (js ''MARIA SANTOS'') (Num 22) (Num 8) (Num 6) (Num 7) valid_id"
    and re: "\<exists>r. reply (put_participant example_env [maria] valid_id
               (rename_body (js '' MARIA SANTOS ''))) = json 200 (ParticipantJson r)
        \<and> full_name r = js ''MARIA SANTOS''"
    by blast+
  from tr st re
  have 1: "trace (put_participant example_env [maria] valid_id
        (rename_body (js '' MARIA SANTOS '')))
       = [Connect, SelectById valid_id,
          UpdateParticipant (js ''MARIA SANTOS'') (JNum (Num 22)) (JNum (Num 8))
            (JNum (Num 6)) (Num 7) valid_id]
   \<and> map full_name (store (put_participant example_env [maria] valid_id
         (rename_body (js '' MARIA SANTOS '')))) = [js ''MARIA SANTOS'']
   \<and> (\<exists>r. reply (put_participant example_env [maria] valid_id
               (rename_body (js '' MARIA SANTOS ''))) = json 200 (ParticipantJson r)
        \<and> full_name r = js ''MARIA SANTOS'')"
    by (simp only: w)
  from same_name_skips_check [OF valid_id_accepted v(2) f(1,2) c, of "js ''Ana''"]
    b l(2) t(2)
  have 2: "take 3 (trace (put_participant example_env [maria] valid_id
        (rename_body (js ''Ana''))))
       = [Connect, SelectById valid_id, SelectIdByNameExcept (js ''Ana'') valid_id]"
    by (simp add: Let_def)
  have o: "id_col maria_upper \<noteq> id_col maria"
    by (simp add: maria_upper_def maria_def valid_id_def js_def)
  then have c': "select_by_id [maria, maria_upper] valid_id = [maria]"
    by (simp add: select_by_id_def u) (simp add: maria_def)
  have f': "fault unique_env 0 = None" "fault unique_env 1 = None"
    "fault unique_env 2 = Some (Some ''23505'')"
    by (simp_all add: unique_env_def example_env_def)
  have l': "toLowerCase unique_env (js ''MARIA SANTOS'')
      = toLowerCase unique_env (full_name maria)"
    by (simp add: unique_env_def example_env_def ascii_lower_def maria_def js_def)
  note y = same_name_skips_check [OF valid_id_accepted v(1) f'(1,2) c',
      of "js '' MARIA SANTOS ''", unfolded Let_def n a t(1)]
  from y b l' f'(3) nn
  have 3: "reply (put_participant unique_env [maria, maria_upper] valid_id
         (rename_body (js '' MARIA SANTOS ''))) = json 409 (ErrorJson msg_name_exists_other)"
    "store (put_participant unique_env [maria, maria_upper] valid_id
         (rename_body (js '' MARIA SANTOS ''))) = [maria, maria_upper]"
    by blast+
  from valid_id_accepted v f c b l 1 2 c' f' l' 3 show ?thesis by (simp add: t)
qed

lemma trim_trimmed: "trimmed (trim s)"
proof -
  define t where "t = dropWhile is_white_space s"
  define u where "u = dropWhile is_white_space (rev t)"
  have tr: "trim s = rev u" by (simp add: trim_def t_def u_def)
  show ?thesis
  proof (cases "u = []")
    case True
    then show ?thesis by (simp add: tr trimmed_def)
  next
    case False
    then have 1: "\<not> is_white_space (hd u)" unfolding u_def by (rule hd_dropWhile)
    have "rev t = takeWhile is_white_space (rev t) @ u"
      unfolding u_def by (rule takeWhile_dropWhile_id [symmetric])
    then obtain pre where p: "rev t = pre @ u" ..
    from p False have tne: "t \<noteq> []" by auto
    have "last u = last (pre @ u)" using False by simp
    also have "\<dots> = last (rev t)" by (simp only: p)
    also have "\<dots> = hd t" using tne by (simp add: last_rev)
    finally have l: "last u = hd t" .
    from tne have "\<not> is_white_space (hd t)" unfolding t_def by (rule hd_dropWhile)
    with l have 2: "\<not> is_white_space (last u)" by simp
    from False 1 2 show ?thesis by (simp add: tr trimmed_def hd_rev last_rev)
  qed
qed

lemma post_store_cases:
  "store (post_participants E db b) = db \<and> status (reply (post_participants E db b)) \<noteq> 201
   \<or> (\<exists>nm row. field b ''full_name'' = JStr nm \<and> full_name row = trim nm
         \<and> store (post_participants E db b) = db @ [row]
         \<and> reply (post_participants E db b) = json 201 (ParticipantJson row))"
proof (cases "validateParticipantData b")
  case (Some r)
  with validate_Some_status [OF Some] show ?thesis
    by (simp add: post_participants_def finish_def)
next
  case None
  show ?thesis
    unfolding post_participants_def post_insert_def Let_def None
    by (auto simp: finish_def json_def create_catch_def internal_error_def
        split: jsval.splits sum.splits option.splits)
qed

lemma put_store_cases:
  "store (put_participant E db i b) = db
   \<or> (\<exists>cur rest a f s avg. select_by_id db i = cur # rest
        \<and> validateParticipantData b = None
        \<and> store (put_participant E db i b) = update_rows db (updated_name b cur) a f s avg i)"
proof (cases "uuid_accepted i \<and> validateParticipantData b = None \<and> fault E 0 = None
    \<and> fault E 1 = None \<and> select_by_id db i \<noteq> []")
  case True
  then obtain cur rest where c: "select_by_id db i = cur # rest"
    by (cases "select_by_id db i") auto
  from True c have p: "put_participant E db i b
      = put_existing E db i b cur [Connect, SelectById i]"
    by (intro put_participant_existing) simp_all
  from True have v: "validateParticipantData b = None" by simp
  show ?thesis
    using c v unfolding p put_existing_valid [OF v]
    by (auto simp: finish_def split: list.splits)
next
  case False
  then have "store (put_participant E db i b) = db"
    using validateUUID_None [of i]
    by (auto simp: put_participant_def finish_def split: option.splits list.splits)
  then show ?thesis by simp
qed

lemma update_rows_names:
  "r \<in> set (update_rows db n a f s avg i) \<Longrightarrow>
     full_name r = n \<or> (\<exists>r' \<in> set db. full_name r = full_name r')"
  by (auto simp: update_rows_def split: if_splits)

lemma select_by_id_subset: "select_by_id db i = cur # rest \<Longrightarrow> cur \<in> set db"
proof -
  assume "select_by_id db i = cur # rest"
  then have "cur \<in> set (filter (\<lambda>r. id_col r = uuid_in i) db)"
    by (simp add: select_by_id_def)
  then show ?thesis by simp
qed

text \<open>
  Claim C10. A create answered with 201 appends a row whose full_name is the
  trim of the supplied name; an update answered with 200 leaves in the row the trim
  of the supplied name, or the current name when the body has none. A trimmed name
  has no white space at either end, so when no name of the table has surrounding
  white space, none has after a create or an update, whatever their answer.
\<close>

theorem stored_names_trimmed:
  "((\<forall>r \<in> set db. trimmed (full_name r)) \<longrightarrow>
      (\<forall>r \<in> set (store (post_participants E db b)). trimmed (full_name r))
      \<and> (\<forall>r \<in> set (store (put_participant E db i b)). trimmed (full_name r)))
   \<and> (status (reply (post_participants E db b)) = 201 \<longrightarrow>
        (\<exists>nm row. field b ''full_name'' = JStr nm
           \<and> reply (post_participants E db b) = json 201 (ParticipantJson row)
           \<and> store (post_participants E db b) = db @ [row]
           \<and> full_name row = trim nm \<and> trimmed (full_name row)))
   \<and> (status (reply (put_participant E db i b)) = 200 \<longrightarrow>
        (\<exists>current rest r. select_by_id db i = current # rest
           \<and> reply (put_participant E db i b) = json 200 (ParticipantJson r)
           \<and> hd (select_by_id (store (put_participant E db i b)) i) = r
           \<and> (field b ''full_name'' = JUndefined \<longrightarrow> full_name r = full_name current)
           \<and> (field b ''full_name'' \<noteq> JUndefined \<longrightarrow>
                (\<exists>nm. field b ''full_name'' = JStr nm \<and> full_name r = trim nm
                   \<and> trimmed (full_name r)))))"
proof (intro conjI impI)
  assume a: "\<forall>r \<in> set db. trimmed (full_name r)"
  from post_store_cases [of E db b] a trim_trimmed
  show "\<forall>r \<in> set (store (post_participants E db b)). trimmed (full_name r)"
    by auto
  show "\<forall>r \<in> set (store (put_participant E db i b)). trimmed (full_name r)"
  proof
    fix r assume r: "r \<in> set (store (put_participant E db i b))"
    from put_store_cases [of E db i b] show "trimmed (full_name r)"
    proof
      assume "store (put_participant E db i b) = db"
      with r a show ?thesis by simp
    next
      assume "\<exists>cur rest a f s avg. select_by_id db i = cur # rest
        \<and> validateParticipantData b = None
        \<and> store (put_participant E db i b) = update_rows db (updated_name b cur) a f s avg i"
      then obtain cur rest x f s avg where c: "select_by_id db i = cur # rest"
        and v: "validateParticipantData b = None"
        and s: "store (put_participant E db i b)
          = update_rows db (updated_name b cur) x f s avg i"
        by blast
      from select_by_id_subset [OF c] a have "trimmed (full_name cur)" by simp
      with validated_name [OF v, of cur] trim_trimmed
      have "trimmed (updated_name b cur)" by (cases "field b ''full_name'' = JUndefined") auto
      with update_rows_names [of r db "updated_name b cur" x f s avg i] r s a
      show ?thesis by auto
    qed
  qed
next
  assume "status (reply (post_participants E db b)) = 201"
  with post_store_cases [of E db b] trim_trimmed
  show "\<exists>nm row. field b ''full_name'' = JStr nm
           \<and> reply (post_participants E db b) = json 201 (ParticipantJson row)
           \<and> store (post_participants E db b) = db @ [row]
           \<and> full_name row = trim nm \<and> trimmed (full_name row)"
    by auto
next
  assume "status (reply (put_participant E db i b)) = 200"
  from put_200_shape [OF this] obtain cur rest' avg where
    c: "select_by_id db i = cur # rest'" and v: "validateParticipantData b = None"
    and r: "reply (put_participant E db i b) = json 200 (ParticipantJson
         (cur\<lparr>full_name := updated_name b cur,
            age := updated_number b ''age'' (age cur),
            first_semester := updated_number b ''first_semester'' (first_semester cur),
            second_semester := updated_number b ''second_semester'' (second_semester cur),
            final_average := avg\<rparr>))"
    and s: "store (put_participant E db i b)
       = update_rows db (updated_name b cur) (updated_number b ''age'' (age cur))
           (updated_number b ''first_semester'' (first_semester cur))
           (updated_number b ''second_semester'' (second_semester cur)) avg i"
    by blast
  show "\<exists>current rest r. select_by_id db i = current # rest
           \<and> reply (put_participant E db i b) = json 200 (ParticipantJson r)
           \<and> hd (select_by_id (store (put_participant E db i b)) i) = r
           \<and> (field b ''full_name'' = JUndefined \<longrightarrow> full_name r = full_name current)
           \<and> (field b ''full_name'' \<noteq> JUndefined \<longrightarrow>
                (\<exists>nm. field b ''full_name'' = JStr nm \<and> full_name r = trim nm
                   \<and> trimmed (full_name r)))"
    using c r validated_name [OF v, of cur] trim_trimmed
    by (intro exI [of _ cur] exI [of _ rest']
        exI [of _ "cur\<lparr>full_name := updated_name b cur,
            age := updated_number b ''age'' (age cur),
            first_semester := updated_number b ''first_semester'' (first_semester cur),
            second_semester := updated_number b ''second_semester'' (second_semester cur),
            final_average := avg\<rparr>"])
      (auto simp: s select_update_rows)
qed

lemma example_post_created:
  "status (reply (post_participants example_env [maria] (create_body (js '' Ana Lima '')))) = 201"
proof -
  have v: "validateParticipantData (create_body (js '' Ana Lima '')) = None"
    by (simp add: validate_eval create_body_def)
  have t: "trim (js '' Ana Lima '') = js ''Ana Lima''"
    by (simp add: trim_def is_white_space_def js_def)
  have n: "js '' Ana Lima '' \<noteq> []" by (simp add: js_def)
  have l: "ascii_lower (js ''Maria Santos'') \<noteq> ascii_lower (js ''Ana Lima'')"
    by (simp add: ascii_lower_def js_def)
  show ?thesis
    using v n l
    by (simp add: post_participants_def field_def create_body_def Let_def t
        calculateFinalAverage_Num post_insert_def example_env_def select_id_by_name_def
        maria_def finish_def json_def)
qed

lemma example_put_updated:
  "status (reply (put_participant example_env [maria] valid_id
      (create_body (js '' Ana Lima '')))) = 200"
proof -
  have v: "validateParticipantData (create_body (js '' Ana Lima '')) = None"
    by (simp add: validate_eval create_body_def)
  have u: "uuid_in valid_id = valid_id" by (simp add: uuid_in_def valid_id_def js_def)
  have c: "select_by_id [maria] valid_id = [maria]"
    by (simp add: select_by_id_def u maria_def)
  have f: "\<forall>k. fault example_env k = None" by (simp add: example_env_def)
  have e: "select_id_by_name_except example_env [maria]
      (updated_name (create_body (js '' Ana Lima '')) maria) valid_id = []"
    by (simp add: select_id_by_name_except_def u maria_def)
  have n: "updated_number (create_body (js '' Ana Lima '')) ''first_semester''
      (first_semester maria) \<noteq> NaN"
    "updated_number (create_body (js '' Ana Lima '')) ''second_semester''
      (second_semester maria) \<noteq> NaN"
    by (simp_all add: updated_number_def field_def create_body_def)
  from put_succeeds [OF valid_id_accepted v f c _ n] e show ?thesis by simp
qed

text \<open>
  A create and an update with the name Ana Lima padded with spaces, Maria Santos
  being in the table: both store Ana Lima.
\<close>

theorem stored_names_trimmed_witness:
  "trimmed (full_name maria)
   \<and> status (reply (post_participants example_env [maria] (create_body (js '' Ana Lima ''))))
       = 201
   \<and> status (reply (put_participant example_env [maria] valid_id
         (create_body (js '' Ana Lima '')))) = 200
   \<and> (\<exists>row. store (post_participants example_env [maria] (create_body (js '' Ana Lima '')))
          = [maria, row] \<and> full_name row = js ''Ana Lima'')
   \<and> (\<exists>r. reply (put_participant example_env [maria] valid_id
           (create_body (js '' Ana Lima ''))) = json 200 (ParticipantJson r)
        \<and> full_name r = js ''Ana Lima'')"
proof -
  have m: "trimmed (full_name maria)"
    by (simp add: trimmed_def maria_def is_white_space_def js_def)
  have t: "trim (js '' Ana Lima '') = js ''Ana Lima''"
    by (simp add: trim_def is_white_space_def js_def)
  have b: "field (create_body (js '' Ana Lima '')) ''full_name'' = JStr (js '' Ana Lima '')"
    by (simp add: field_def create_body_def)
  note w = stored_names_trimmed [of "[maria]" example_env "create_body (js '' Ana Lima '')"
      valid_id]
  from w example_post_created b t
  have 1: "\<exists>row. store (post_participants example_env [maria]
      (create_body (js '' Ana Lima ''))) = [maria, row] \<and> full_name row = js ''Ana Lima''"
    by auto
  from w example_put_updated b t
  have 2: "\<exists>r. reply (put_participant example_env [maria] valid_id
           (create_body (js '' Ana Lima ''))) = json 200 (ParticipantJson r)
        \<and> full_name r = js ''Ana Lima''"
    by auto
  from m example_post_created example_put_updated 1 2 show ?thesis by blast
qed

section \<open>The final average\<close>

lemma fl_eval:
  assumes "2 powi k \<le> \<bar>x\<bar>" and "\<bar>x\<bar> < 2 powi (k + 1)" and "- 1022 \<le> k"
  shows "fl x = of_int (round_ties_even (x / 2 powi (k - 52))) * 2 powi (k - 52)"
proof -
  have "0 < \<bar>x\<bar>" using assms(1) by (rule less_le_trans [rotated]) simp
  then have x: "x \<noteq> 0" by simp
  from floor_log2_eq [OF assms(1,2)] assms(3)
  have "max (floor_log2 \<bar>x\<bar> - 52) (- 1074) = k - 52" by simp
  with x show ?thesis by (simp add: fl_def Let_def)
qed

lemma round_ties_even_unique:
  assumes "\<bar>q - of_int n\<bar> < 1 / 2"
  shows "round_ties_even q = n"
proof -
  from round_ties_even_near [of q] assms
  have "\<bar>(of_int (round_ties_even q) :: rat) - of_int n\<bar> < 1" by linarith
  then have "\<bar>(of_int (round_ties_even q - n) :: rat)\<bar> < of_int 1" by simp
  then have "\<bar>round_ties_even q - n\<bar> < 1" by (simp only: of_int_less_iff flip: of_int_abs)
  then show ?thesis by linarith
qed

lemma fl_nearest:
  assumes "2 powi k \<le> \<bar>x\<bar>" and "\<bar>x\<bar> < 2 powi (k + 1)" and "- 1022 \<le> k"
    and "\<bar>x / 2 powi (k - 52) - of_int n\<bar> < 1 / 2"
  shows "fl x = of_int n * 2 powi (k - 52)"
  using fl_eval [OF assms(1-3)] round_ties_even_unique [OF assms(4)] by simp

lemma fl_a: "fl (1 / 100) = 5764607523034235 / 576460752303423488"
  by (subst fl_nearest [where k = "- 7" and n = 5764607523034235]) simp_all

lemma fl_b: "fl (202 / 100) = 4548635623644201 / 2251799813685248"
  by (subst fl_nearest [where k = 1 and n = 4548635623644201]) simp_all

lemma fl_s1:
  "fl (5764607523034235 / 576460752303423488 + 4548635623644201 / 2251799813685248)
     = 4571153621781053 / 2251799813685248"
  by (subst fl_nearest [where k = 1 and n = 4571153621781053]) simp_all

lemma fl_s2: "fl (4571153621781053 / 2251799813685248 / 2) = 4571153621781053 / 4503599627370496"
  by (subst fl_nearest [where k = 0 and n = 4571153621781053]) simp_all

lemma fl_s3: "fl (4571153621781053 / 4503599627370496 * 100) = 7142427534032895 / 70368744177664"
  by (subst fl_nearest [where k = 6 and n = 7142427534032895]) simp_all

lemma fl_101: "fl (101 / 100) = 4548635623644201 / 4503599627370496"
  by (subst fl_nearest [where k = 0 and n = 4548635623644201]) simp_all

lemma fl_102: "fl (102 / 100) = 2296835809958953 / 2251799813685248"
  by (subst fl_nearest [where k = 0 and n = 4593671619917906]) simp_all

lemma fl_abs_error:
  assumes "\<bar>x\<bar> < 2 powi m" and "- 1021 \<le> m"
  shows "\<bar>fl x - x\<bar> \<le> 2 powi (m - 54)"
proof (cases "x = 0")
  case True
  then show ?thesis by simp
next
  case False
  define k where "k = floor_log2 \<bar>x\<bar>"
  define e where "e = max (k - 52) (- 1074)"
  define q where "q = x / 2 powi e"
  from False have "0 < \<bar>x\<bar>" by simp
  from floor_log2_bounds [OF this] assms(1) have "(2::rat) powi k < 2 powi m"
    by (simp add: k_def)
  then have "k < m" by (rule pow2_less_imp)
  with assms(2) have e: "e - 1 \<le> m - 54" by (simp add: e_def)
  have f: "fl x = of_int (round_ties_even q) * 2 powi e"
    using False by (simp add: fl_def Let_def e_def k_def q_def)
  have x: "x = q * 2 powi e" by (simp add: q_def)
  have "fl x - x = of_int (round_ties_even q) * 2 powi e - q * 2 powi e"
    using f x by simp
  then have "fl x - x = (of_int (round_ties_even q) - q) * 2 powi e"
    by (simp add: algebra_simps)
  then have "\<bar>fl x - x\<bar> = \<bar>of_int (round_ties_even q) - q\<bar> * 2 powi e"
    by (simp add: abs_mult)
  also have "\<dots> \<le> 1 / 2 * 2 powi e"
    using round_ties_even_near [of q] by (intro mult_right_mono) simp_all
  also have "\<dots> = 2 powi (e - 1)" by (simp add: power_int_diff)
  also have "\<dots> \<le> 2 powi (m - 54)" using e by (intro power_int_increasing) simp_all
  finally show ?thesis .
qed

lemma to_double_finite: "\<bar>fl x\<bar> < 2 ^ 1024 \<Longrightarrow> to_double x = Num (fl x)"
  by (auto simp: to_double_def Let_def)

lemma to_double_bounded:
  assumes "\<bar>x\<bar> < 2 powi m" and "- 1021 \<le> m" and "m \<le> 1000"
  shows "to_double x = Num (fl x)"
proof -
  have "\<bar>fl x\<bar> \<le> \<bar>x\<bar> + \<bar>fl x - x\<bar>" by linarith
  also have "\<dots> < 2 powi m + 2 powi (m - 54)"
    using assms(1) fl_abs_error [OF assms(1,2)] by linarith
  also have "\<dots> \<le> 2 powi 1000 + 2 powi 1000"
    using assms(3) by (intro add_mono power_int_increasing) simp_all
  also have "\<dots> < 2 ^ 1024" by simp
  finally show ?thesis by (rule to_double_finite)
qed

lemma js_average_bound:
  assumes "0 \<le> f" and "f \<le> 10" and "0 \<le> s" and "s \<le> 10"
  shows "\<exists>k. js_average (Num f) (Num s) = to_double (of_int k / 100)
    \<and> \<bar>of_int k - 100 * ((f + s) / 2)\<bar> \<le> 1 / 2 + 2 powi (- 41)"
proof -
  define s1 where "s1 = fl (f + s)"
  define s2 where "s2 = fl (s1 / 2)"
  define s3 where "s3 = fl (s2 * 100)"
  define k where "k = \<lfloor>s3 + 1 / 2\<rfloor>"
  have b1: "\<bar>f + s\<bar> < 2 powi 5" using assms by simp
  have e1: "\<bar>s1 - (f + s)\<bar> \<le> 2 powi (- 49)"
    using fl_abs_error [OF b1] by (simp add: s1_def)
  have t1: "to_double (f + s) = Num s1"
    using to_double_bounded [OF b1] by (simp add: s1_def)
  have b2: "\<bar>s1 / 2\<bar> < 2 powi 4" using e1 assms by (simp add: abs_if split: if_splits)
  have e2: "\<bar>s2 - s1 / 2\<bar> \<le> 2 powi (- 50)"
    using fl_abs_error [OF b2] by (simp add: s2_def)
  have t2: "to_double (s1 / 2) = Num s2"
    using to_double_bounded [OF b2] by (simp add: s2_def)
  have b3: "\<bar>s2 * 100\<bar> < 2 powi 10"
    using e1 e2 assms by (simp add: abs_if split: if_splits)
  have e3: "\<bar>s3 - s2 * 100\<bar> \<le> 2 powi (- 44)"
    using fl_abs_error [OF b3] by (simp add: s3_def)
  have t3: "to_double (s2 * 100) = Num s3"
    using to_double_bounded [OF b3] by (simp add: s3_def)
  have a: "js_average (Num f) (Num s) = to_double (of_int k / 100)"
    by (simp add: js_average_def t1 t2 t3 k_def)
  have "of_int k \<le> s3 + 1 / 2" "s3 + 1 / 2 < of_int k + 1" unfolding k_def by linarith+
  then have ek: "\<bar>of_int k - s3\<bar> \<le> 1 / 2" by (simp add: abs_if)
  define d0 where "d0 = of_int k - s3"
  define d3 where "d3 = s3 - s2 * 100"
  define d2 where "d2 = s2 - s1 / 2"
  define d1 where "d1 = s1 - (f + s)"
  have eq: "of_int k - 100 * ((f + s) / 2) = d0 + d3 + 100 * d2 + 50 * d1"
    by (simp add: d0_def d1_def d2_def d3_def field_simps)
  have tri: "\<bar>d0 + d3 + 100 * d2 + 50 * d1\<bar>
      \<le> \<bar>d0\<bar> + \<bar>d3\<bar> + 100 * \<bar>d2\<bar> + 50 * \<bar>d1\<bar>"
    by linarith
  have d: "\<bar>d0\<bar> \<le> 1 / 2" "\<bar>d3\<bar> \<le> 2 powi (- 44)" "\<bar>d2\<bar> \<le> 2 powi (- 50)"
    "\<bar>d1\<bar> \<le> 2 powi (- 49)"
    using ek e1 e2 e3 unfolding d0_def d1_def d2_def d3_def by blast+
  have "\<bar>of_int k - 100 * ((f + s) / 2)\<bar>
      \<le> \<bar>d0\<bar> + \<bar>d3\<bar> + 100 * \<bar>d2\<bar> + 50 * \<bar>d1\<bar>"
    unfolding eq by (rule tri)
  also have "\<dots> \<le> 1 / 2 + 2 powi (- 44) + 100 * 2 powi (- 50) + 50 * 2 powi (- 49)"
    using d by (intro add_mono mult_left_mono) simp_all
  also have "\<dots> \<le> 1 / 2 + 2 powi (- 41)" by simp
  finally have "\<bar>of_int k - 100 * ((f + s) / 2)\<bar> \<le> 1 / 2 + 2 powi (- 41)" .
  with a show ?thesis by blast
qed

lemma to_double_a: "to_double (1 / 100) = Num (5764607523034235 / 576460752303423488)"
  unfolding to_double_def fl_a by (simp add: Let_def)

lemma to_double_b: "to_double (202 / 100) = Num (4548635623644201 / 2251799813685248)"
  unfolding to_double_def fl_b by (simp add: Let_def)

lemma to_double_b': "to_double (101 / 50) = Num (4548635623644201 / 2251799813685248)"
  using to_double_b by simp

lemma to_double_101: "to_double (101 / 100) = Num (4548635623644201 / 4503599627370496)"
  unfolding to_double_def fl_101 by (simp add: Let_def)

lemma to_double_102: "to_double (102 / 100) = Num (2296835809958953 / 2251799813685248)"
  unfolding to_double_def fl_102 by (simp add: Let_def)

lemma js_average_low:
  "js_average (Num (5764607523034235 / 576460752303423488))
     (Num (4548635623644201 / 2251799813685248)) = to_double (101 / 100)"
proof -
  have 1: "js_add (Num (5764607523034235 / 576460752303423488))
      (Num (4548635623644201 / 2251799813685248)) = Num (4571153621781053 / 2251799813685248)"
    unfolding js_add.simps to_double_def fl_s1 by (simp add: Let_def)
  have 2: "js_div (Num (4571153621781053 / 2251799813685248)) (Num 2)
      = Num (4571153621781053 / 4503599627370496)"
    unfolding js_div.simps to_double_def fl_s2 by (simp add: Let_def)
  have 3: "js_mul (Num (4571153621781053 / 4503599627370496)) (Num 100)
      = Num (7142427534032895 / 70368744177664)"
    unfolding js_mul.simps to_double_def fl_s3 by (simp add: Let_def)
  have "\<lfloor>7142427534032895 / 70368744177664 + 1 / 2 :: rat\<rfloor> = 101"
    by (rule floor_unique) simp_all
  then have 4: "Math_round (Num (7142427534032895 / 70368744177664)) = Num 101"
    by (simp only: Math_round.simps) simp
  have 5: "js_div (Num 101) (Num 100) = to_double (101 / 100)" by simp
  show ?thesis unfolding js_average_def 1 2 3 4 5 ..
qed

lemma spec_average_low:
  "spec_average (5764607523034235 / 576460752303423488) (4548635623644201 / 2251799813685248)
     = to_double (102 / 100)"
proof -
  have "\<lfloor>(5764607523034235 / 576460752303423488 + 4548635623644201 / 2251799813685248) / 2
      * 100 + 1 / 2 :: rat\<rfloor> = 102"
    by (rule floor_unique) simp_all
  then show ?thesis by (simp only: spec_average_def round_half_up_2_def) simp
qed

text \<open>
  Claim C1 as stated fails: the average is computed in binary floating point. For
  the scores 0.01 and 2.02 the create is answered with 201 and stores the double of
  1.01, while the mean of the two stored scores, which lies above 1.015, rounds to
  1.02.
\<close>

theorem average_not_nearest_hundredth:
  "to_double (1 / 100) = Num (5764607523034235 / 576460752303423488)
   \<and> to_double (202 / 100) = Num (4548635623644201 / 2251799813685248)
   \<and> status (reply (post_participants example_env [] low_scores_body)) = 201
   \<and> map final_average (store (post_participants example_env [] low_scores_body))
       = [to_double (101 / 100)]
   \<and> spec_average (5764607523034235 / 576460752303423488)
        (4548635623644201 / 2251799813685248) = to_double (102 / 100)
   \<and> to_double (101 / 100) \<noteq> to_double (102 / 100)"
proof -
  have v: "validateParticipantData low_scores_body = None"
    by (simp add: validate_eval low_scores_body_def to_double_a to_double_b')
  have t: "trim (js ''Ana Lima'') = js ''Ana Lima''"
    by (simp add: trim_def is_white_space_def js_def)
  have n: "js ''Ana Lima'' \<noteq> []" by (simp add: js_def)
  have p: "status (reply (post_participants example_env [] low_scores_body)) = 201
    \<and> map final_average (store (post_participants example_env [] low_scores_body))
       = [to_double (101 / 100)]"
    using v n
    by (simp add: post_participants_def field_def low_scores_body_def Let_def t
        to_double_a to_double_b' calculateFinalAverage_Num js_average_low post_insert_def
        example_env_def select_id_by_name_def finish_def json_def)
  have d: "to_double (101 / 100) \<noteq> to_double (102 / 100)"
    unfolding to_double_101 to_double_102 by simp
  from p d to_double_a to_double_b spec_average_low show ?thesis by blast
qed

lemma post_201_shape:
  assumes "status (reply (post_participants E db b)) = 201"
  shows "\<exists>nm a f s. field b ''full_name'' = JStr nm \<and> field b ''age'' = JNum a
    \<and> field b ''first_semester'' = JNum (Num f) \<and> field b ''second_semester'' = JNum (Num s)
    \<and> 0 \<le> f \<and> f \<le> 10 \<and> 0 \<le> s \<and> s \<le> 10
    \<and> store (post_participants E db b)
        = db @ [\<lparr>id_col = gen_random_uuid E, full_name = trim nm, age = a,
                  first_semester = Num f, second_semester = Num s,
                  final_average = js_average (Num f) (Num s)\<rparr>]"
proof -
  have v: "validateParticipantData b = None"
  proof (cases "validateParticipantData b")
    case (Some r)
    with validate_Some_status [OF Some] assms show ?thesis
      by (simp add: post_participants_def finish_def)
  qed simp
  note e = validate_None_fields [OF v]
  from assms v have pr: "\<not> falsy (field b ''full_name'')" "field b ''age'' \<noteq> JUndefined"
    "field b ''first_semester'' \<noteq> JUndefined" "field b ''second_semester'' \<noteq> JUndefined"
    by (auto simp: post_participants_def Let_def finish_def json_def split: if_splits)
  from pr(1) e name_ok [of "field b ''full_name''"] obtain nm
    where nm: "field b ''full_name'' = JStr nm" by auto
  from post_valid [OF v nm pr(2,3,4), of E db] obtain a f s where
    a: "field b ''age'' = JNum a" and f: "field b ''first_semester'' = JNum f"
    and s: "field b ''second_semester'' = JNum s"
    and p: "post_participants E db b =
        (if f = NaN \<or> s = NaN then finish (json 400 (ErrorJson msg_grades)) db []
         else post_insert E db (trim nm) (JNum a) (JNum f) (JNum s) (js_average f s))"
    by blast
  from assms p have n: "f \<noteq> NaN" "s \<noteq> NaN"
    by (auto simp: finish_def json_def split: if_splits)
  from e f n semester_ok [of msg_first_semester "field b ''first_semester''"]
  obtain f' where f': "f = Num f'" "0 \<le> f'" "f' \<le> 10" by auto
  from e s n semester_ok [of msg_second_semester "field b ''second_semester''"]
  obtain s' where s': "s = Num s'" "0 \<le> s'" "s' \<le> 10" by auto
  have "store (post_participants E db b)
        = db @ [\<lparr>id_col = gen_random_uuid E, full_name = trim nm, age = a,
                  first_semester = Num f', second_semester = Num s',
                  final_average = js_average (Num f') (Num s')\<rparr>]"
    using assms n unfolding p post_insert_def Let_def
    by (auto simp: finish_def json_def create_catch_def internal_error_def f' s'
        split: option.splits if_splits)
  with nm a f s f' s' show ?thesis by blast
qed

lemma field_ignores_final_average:
  "k \<noteq> ''final_average'' \<Longrightarrow> field (b(''final_average'' \<mapsto> v)) k = field b k"
  by (simp add: field_def)

lemma validate_ignores_final_average:
  "validateParticipantData (b(''final_average'' \<mapsto> v)) = validateParticipantData b"
  by (simp add: validateParticipantData_def field_ignores_final_average)

lemma post_ignores_final_average:
  "post_participants E db (b(''final_average'' \<mapsto> v)) = post_participants E db b"
  by (simp add: post_participants_def validate_ignores_final_average
      field_ignores_final_average split: option.splits)

lemma put_existing_ignores_final_average:
  "put_existing E db i (b(''final_average'' \<mapsto> v)) current tr
     = put_existing E db i b current tr"
  by (simp add: put_existing_def field_ignores_final_average)

lemma put_ignores_final_average:
  "put_participant E db i (b(''final_average'' \<mapsto> v)) = put_participant E db i b"
  by (simp add: put_participant_def put_existing_ignores_final_average
      validate_ignores_final_average split: option.splits list.splits)

text \<open>
  Claim C1, amended. After a create answered with 201 and after an update answered
  with 200, the final_average of the row is the value of
  \<open>Math.round(((first + second) / 2) * 100) / 100\<close> in double arithmetic on the two
  scores of the row; a final_average in the body changes nothing. For scores from 0
  to 10 that value is the double of k/100 for an integer k within 1/2 + 2^-41 of
  a hundred times the mean: the mean rounded to two decimal places, except that a
  mean within 2^-41 hundredths of a rounding boundary may go to either side.
\<close>

theorem final_average_recomputed:
  "(status (reply (post_participants E db b)) = 201 \<longrightarrow>
      (\<exists>row x y. store (post_participants E db b) = db @ [row]
         \<and> field b ''first_semester'' = JNum (Num x)
         \<and> field b ''second_semester'' = JNum (Num y)
         \<and> first_semester row = Num x \<and> second_semester row = Num y
         \<and> 0 \<le> x \<and> x \<le> 10 \<and> 0 \<le> y \<and> y \<le> 10
         \<and> final_average row = js_average (Num x) (Num y)))
   \<and> (status (reply (put_participant E db i b)) = 200 \<longrightarrow>
      (\<exists>r. reply (put_participant E db i b) = json 200 (ParticipantJson r)
         \<and> hd (select_by_id (store (put_participant E db i b)) i) = r
         \<and> final_average r = js_average (first_semester r) (second_semester r)))
   \<and> post_participants E db (b(''final_average'' \<mapsto> v)) = post_participants E db b
   \<and> put_participant E db i (b(''final_average'' \<mapsto> v)) = put_participant E db i b
   \<and> (0 \<le> f \<and> f \<le> 10 \<and> 0 \<le> s \<and> s \<le> 10 \<longrightarrow>
        (\<exists>k. js_average (Num f) (Num s) = to_double (of_int k / 100)
           \<and> \<bar>of_int k - 100 * ((f + s) / 2)\<bar> \<le> 1 / 2 + 2 powi (- 41)))"
proof (intro conjI impI)
  assume "status (reply (post_participants E db b)) = 201"
  from post_201_shape [OF this]
  show "\<exists>row x y. store (post_participants E db b) = db @ [row]
         \<and> field b ''first_semester'' = JNum (Num x)
         \<and> field b ''second_semester'' = JNum (Num y)
         \<and> first_semester row = Num x \<and> second_semester row = Num y
         \<and> 0 \<le> x \<and> x \<le> 10 \<and> 0 \<le> y \<and> y \<le> 10
         \<and> final_average row = js_average (Num x) (Num y)"
    by fastforce
next
  assume "status (reply (put_participant E db i b)) = 200"
  from put_200_shape [OF this] obtain cur rest' avg where
    c: "select_by_id db i = cur # rest'"
    and r: "reply (put_participant E db i b) = json 200 (ParticipantJson
         (cur\<lparr>full_name := updated_name b cur,
            age := updated_number b ''age'' (age cur),
            first_semester := updated_number b ''first_semester'' (first_semester cur),
            second_semester := updated_number b ''second_semester'' (second_semester cur),
            final_average := avg\<rparr>))"
    and a: "avg = js_average (updated_number b ''first_semester'' (first_semester cur))
              (updated_number b ''second_semester'' (second_semester cur))"
    and s: "store (put_participant E db i b)
       = update_rows db (updated_name b cur) (updated_number b ''age'' (age cur))
           (updated_number b ''first_semester'' (first_semester cur))
           (updated_number b ''second_semester'' (second_semester cur)) avg i"
    by blast
  show "\<exists>r. reply (put_participant E db i b) = json 200 (ParticipantJson r)
         \<and> hd (select_by_id (store (put_participant E db i b)) i) = r
         \<and> final_average r = js_average (first_semester r) (second_semester r)"
    using c r a
    by (intro exI [of _ "cur\<lparr>full_name := updated_name b cur,
            age := updated_number b ''age'' (age cur),
            first_semester := updated_number b ''first_semester'' (first_semester cur),
            second_semester := updated_number b ''second_semester'' (second_semester cur),
            final_average := avg\<rparr>"])
      (simp add: s select_update_rows)
next
  show "post_participants E db (b(''final_average'' \<mapsto> v)) = post_participants E db b"
    by (rule post_ignores_final_average)
  show "put_participant E db i (b(''final_average'' \<mapsto> v)) = put_participant E db i b"
    by (rule put_ignores_final_average)
next
  assume "0 \<le> f \<and> f \<le> 10 \<and> 0 \<le> s \<and> s \<le> 10"
  then show "\<exists>k. js_average (Num f) (Num s) = to_double (of_int k / 100)
           \<and> \<bar>of_int k - 100 * ((f + s) / 2)\<bar> \<le> 1 / 2 + 2 powi (- 41)"
    by (intro js_average_bound) simp_all
qed

text \<open>
  The final average after a create and after an update with the scores 8 and 6.
\<close>

theorem final_average_recomputed_witness:
  "status (reply (post_participants example_env [maria] (create_body (js '' Ana Lima ''))))
     = 201
   \<and> (\<exists>row. store (post_participants example_env [maria] (create_body (js '' Ana Lima '')))
          = [maria, row] \<and> final_average row = js_average (Num 8) (Num 6))
   \<and> status (reply (put_participant example_env [maria] valid_id
         (create_body (js '' Ana Lima '')))) = 200
   \<and> (\<exists>r. reply (put_participant example_env [maria] valid_id
           (create_body (js '' Ana Lima ''))) = json 200 (ParticipantJson r)
        \<and> final_average r = js_average (first_semester r) (second_semester r))
   \<and> (\<exists>k. js_average (Num 8) (Num 6) = to_double (of_int k / 100)
        \<and> \<bar>of_int k - 100 * ((8 + 6) / 2 :: rat)\<bar> \<le> 1 / 2 + 2 powi (- 41))"
proof -
  have b: "field (create_body (js '' Ana Lima '')) ''first_semester'' = JNum (Num 8)"
    "field (create_body (js '' Ana Lima '')) ''second_semester'' = JNum (Num 6)"
    by (simp_all add: field_def create_body_def)
  note w = final_average_recomputed [where E = example_env and db = "[maria]"
      and b = "create_body (js '' Ana Lima '')" and i = valid_id and f = 8 and s = 6]
  from w example_post_created b
  have 1: "\<exists>row. store (post_participants example_env [maria]
      (create_body (js '' Ana Lima ''))) = [maria, row]
      \<and> final_average row = js_average (Num 8) (Num 6)"
    by auto
  from w example_put_updated
  have 2: "\<exists>r. reply (put_participant example_env [maria] valid_id
           (create_body (js '' Ana Lima ''))) = json 200 (ParticipantJson r)
        \<and> final_average r = js_average (first_semester r) (second_semester r)"
    by blast
  from w have 3: "\<exists>k. js_average (Num 8) (Num 6) = to_double (of_int k / 100)
        \<and> \<bar>of_int k - 100 * ((8 + 6) / 2 :: rat)\<bar> \<le> 1 / 2 + 2 powi (- 41)"
    by simp
  from example_post_created example_put_updated 1 2 3 show ?thesis by blast
qed

end
